theory Spec2Isabelle
  imports Complex_Main "HOL-Library.Multiset"
begin

section \<open>Values and errors\<close>

text \<open>
  A \<open>datetime\<close> is the number of microseconds since 1970-01-01T00:00:00 (UTC).
  Python's \<open>None\<close> is \<open>None\<close> of an option type. Numbers that travel from the
  API response into \<open>Numeric\<close> columns are exact rationals: the code performs no
  arithmetic on them.
\<close>

type_synonym datetime = int

datatype error =
    AttributeError
  | OverflowError
  | IntegrityError
  | DataError

definition err_bind :: "error + 'a \<Rightarrow> ('a \<Rightarrow> error + 'b) \<Rightarrow> error + 'b" where
  "err_bind m f = (case m of Inl e \<Rightarrow> Inl e | Inr x \<Rightarrow> f x)"

section \<open>Data model (models.py)\<close>

text \<open>
  A quote is the dict built by \<open>CryptoService\<close>: its nine keys are fixed, any value
  may be \<open>None\<close>. Field names carry a prefix where several records use the same key.
\<close>

record quote =
  q_id :: "string option"
  q_name :: "string option"
  q_symbol :: "string option"
  q_price_usd :: "rat option"
  q_market_cap_usd :: "rat option"
  q_volume_24h_usd :: "rat option"
  q_price_change_24h_percent :: "rat option"
  q_market_cap_rank :: "int option"
  q_image_url :: "string option"

text \<open>
  The rows of the three tables. Columns declared \<open>nullable=False\<close> (and the
  primary key) hold a value in every row, so their type is not an option; what Python
  hands to the session may still be \<open>None\<close> and is checked when it is flushed. The
  surrogate keys \<open>CryptoData.id\<close> and \<open>DashboardUpdate.id\<close> are assigned by
  the database and read nowhere in the code; they are left out.
\<close>

record CryptoCurrency =
  cc_id :: string
  cc_name :: string
  cc_symbol :: string
  cc_created_at :: datetime
  cc_updated_at :: datetime

record CryptoData =
  crypto_id :: string
  price_usd :: rat
  market_cap_usd :: rat
  volume_24h_usd :: rat
  price_change_24h_percent :: rat
  market_cap_rank :: int
  timestamp :: datetime

record DashboardUpdate =
  update_timestamp :: datetime
  status :: string
  error_message :: "string option"
  email_sent :: bool
  top_10_data :: "quote list option"

record database =
  cryptocurrencies :: "CryptoCurrency list"
  crypto_data :: "CryptoData list"
  dashboard_updates :: "DashboardUpdate list"

section \<open>Column constraints\<close>

text \<open>
  The configured engine is PostgreSQL. A statement fails only when it violates a
  constraint declared in models.py: \<open>nullable=False\<close>, a primary or foreign key, the
  length of a \<open>String(n)\<close>, the precision of a \<open>Numeric(p, s)\<close>, the range of an
  \<open>Integer\<close>. A \<open>Numeric(p, s)\<close> column rounds to \<open>s\<close> decimals, ties away
  from zero, and rejects a value with more than \<open>p - s\<close> integer digits.
\<close>

definition not_null :: "'a option \<Rightarrow> error + 'a" where
  "not_null v = (case v of None \<Rightarrow> Inl IntegrityError | Some x \<Rightarrow> Inr x)"

definition String_col :: "nat \<Rightarrow> string option \<Rightarrow> error + string" where
  "String_col n v =
     err_bind (not_null v) (\<lambda>s. if n < length s then Inl DataError else Inr s)"

definition round_half_away :: "rat \<Rightarrow> int" where
  "round_half_away x = (if 0 \<le> x then \<lfloor>x + 1 / 2\<rfloor> else - \<lfloor>- x + 1 / 2\<rfloor>)"

definition Numeric_col :: "nat \<Rightarrow> nat \<Rightarrow> rat option \<Rightarrow> error + rat" where
  "Numeric_col p s v =
     err_bind (not_null v) (\<lambda>x.
       let y = of_int (round_half_away (x * 10 ^ s)) / 10 ^ s
       in if 10 ^ (p - s) \<le> \<bar>y\<bar> then Inl DataError else Inr y)"

definition Integer_col :: "int option \<Rightarrow> error + int" where
  "Integer_col v =
     err_bind (not_null v) (\<lambda>i.
       if i < - 2147483648 \<or> 2147483647 < i then Inl DataError else Inr i)"

section \<open>The session: unit of work, flush, commit\<close>

text \<open>
  Every writing method of \<open>DatabaseService\<close> ends with \<open>commit\<close> or
  \<open>rollback\<close>, so the session holds no pending work between two calls. Within a call
  the session is the list of objects added (\<open>session.add\<close>, \<open>add_all\<close>) or
  modified since; \<open>commit\<close> flushes them in one transaction. The changes are
  flushed in the order made, currencies before the rows that reference them; no check
  depends on more of that order.
\<close>

text \<open>
  The constructor arguments are the keyword arguments of the Python constructor, in the
  order written there. \<open>Dirty_CryptoCurrency i name symbol t\<close> is the persistent
  object with primary key \<open>i\<close> whose \<open>name\<close>, \<open>symbol\<close> and
  \<open>updated_at\<close> were assigned.
\<close>

datatype change =
    New_CryptoCurrency "string option" "string option" "string option"
  | Dirty_CryptoCurrency string "string option" "string option" datetime
  | New_CryptoData "string option" "rat option" "rat option" "rat option" "rat option"
      "int option" datetime
  | New_DashboardUpdate "string option" "string option" bool "quote list option"

definition set_attributes ::
  "string \<Rightarrow> string \<Rightarrow> string \<Rightarrow> datetime \<Rightarrow> CryptoCurrency \<Rightarrow> CryptoCurrency" where
  "set_attributes i n s t c =
     (if cc_id c = i then c\<lparr>cc_name := n, cc_symbol := s, cc_updated_at := t\<rparr> else c)"

text \<open>
  \<open>flushed_at\<close> is the value the column defaults (\<open>default=datetime.utcnow\<close>)
  produce while the changes are flushed.
\<close>

fun flush_change :: "datetime \<Rightarrow> database \<Rightarrow> change \<Rightarrow> error + database" where
  "flush_change flushed_at db (New_CryptoCurrency ident name symbol) =
     err_bind (String_col 50 ident) (\<lambda>i.
     err_bind (String_col 100 name) (\<lambda>n.
     err_bind (String_col 10 symbol) (\<lambda>s.
       if i \<in> cc_id ` set (cryptocurrencies db) then Inl IntegrityError
       else Inr (db\<lparr>cryptocurrencies := cryptocurrencies db @
              [\<lparr>cc_id = i, cc_name = n, cc_symbol = s,
                cc_created_at = flushed_at, cc_updated_at = flushed_at\<rparr>]\<rparr>))))"
| "flush_change flushed_at db (Dirty_CryptoCurrency i name symbol t) =
     err_bind (String_col 100 name) (\<lambda>n.
     err_bind (String_col 10 symbol) (\<lambda>s.
       Inr (db\<lparr>cryptocurrencies := map (set_attributes i n s t) (cryptocurrencies db)\<rparr>)))"
| "flush_change flushed_at db (New_CryptoData cid price cap volume change rank t) =
     err_bind (String_col 50 cid) (\<lambda>i.
     err_bind (Numeric_col 20 8 price) (\<lambda>p.
     err_bind (Numeric_col 20 2 cap) (\<lambda>m.
     err_bind (Numeric_col 20 2 volume) (\<lambda>v.
     err_bind (Numeric_col 10 4 change) (\<lambda>c.
     err_bind (Integer_col rank) (\<lambda>r.
       if i \<notin> cc_id ` set (cryptocurrencies db) then Inl IntegrityError
       else Inr (db\<lparr>crypto_data := crypto_data db @
              [\<lparr>crypto_id = i, price_usd = p, market_cap_usd = m, volume_24h_usd = v,
                price_change_24h_percent = c, market_cap_rank = r, timestamp = t\<rparr>]\<rparr>)))))))"
| "flush_change flushed_at db (New_DashboardUpdate st msg sent payload) =
     err_bind (String_col 20 st) (\<lambda>s.
       Inr (db\<lparr>dashboard_updates := dashboard_updates db @
              [\<lparr>update_timestamp = flushed_at, status = s, error_message = msg,
                email_sent = sent, top_10_data = payload\<rparr>]\<rparr>))"

fun flush :: "datetime \<Rightarrow> database \<Rightarrow> change list \<Rightarrow> error + database" where
  "flush flushed_at db [] = Inr db"
| "flush flushed_at db (c # cs) =
     err_bind (flush_change flushed_at db c) (\<lambda>db'. flush flushed_at db' cs)"

text \<open>
  \<open>commit\<close> either makes every pending change durable or raises and leaves the
  transaction open; the caller's \<open>rollback\<close> then discards the pending changes.
\<close>

record session =
  committed :: database
  pending :: "change list"

definition session_add :: "change \<Rightarrow> session \<Rightarrow> session" where
  "session_add c s = s\<lparr>pending := pending s @ [c]\<rparr>"

definition session_add_all :: "change list \<Rightarrow> session \<Rightarrow> session" where
  "session_add_all cs s = s\<lparr>pending := pending s @ cs\<rparr>"

definition commit :: "datetime \<Rightarrow> session \<Rightarrow> error + session" where
  "commit flushed_at s =
     err_bind (flush flushed_at (committed s) (pending s)) (\<lambda>db'.
       Inr \<lparr>committed = db', pending = []\<rparr>)"

definition rollback :: "session \<Rightarrow> session" where
  "rollback s = s\<lparr>pending := []\<rparr>"

definition begin_session :: "database \<Rightarrow> session" where
  "begin_session db = \<lparr>committed = db, pending = []\<rparr>"

section \<open>DatabaseService (services/database\_service.py)\<close>

subsection \<open>store\_crypto\_data\<close>

text \<open>
  \<open>now\<close> is the reading of \<open>datetime.utcnow()\<close> at the start of the call
  (line 35). \<open>existing_cryptos\<close> is the dict of line 38: its keys are the ids of the
  rows the \<open>IN\<close> query returns (an SQL \<open>IN\<close> never matches \<open>NULL\<close>).
\<close>

definition existing_cryptos :: "database \<Rightarrow> quote list \<Rightarrow> string list" where
  "existing_cryptos db crypto_list =
     map cc_id (filter (\<lambda>c. Some (cc_id c) \<in> set (map q_id crypto_list))
       (cryptocurrencies db))"

definition upsert_crypto :: "string list \<Rightarrow> datetime \<Rightarrow> quote \<Rightarrow> change" where
  "upsert_crypto existing now crypto =
     (case q_id crypto of
        None \<Rightarrow> New_CryptoCurrency None (q_name crypto) (q_symbol crypto)
      | Some i \<Rightarrow>
          if i \<notin> set existing
          then New_CryptoCurrency (Some i) (q_name crypto) (q_symbol crypto)
          else Dirty_CryptoCurrency i (q_name crypto) (q_symbol crypto) now)"

definition new_crypto_data :: "datetime \<Rightarrow> quote \<Rightarrow> change" where
  "new_crypto_data now crypto =
     New_CryptoData (q_id crypto) (q_price_usd crypto) (q_market_cap_usd crypto)
       (q_volume_24h_usd crypto) (q_price_change_24h_percent crypto)
       (q_market_cap_rank crypto) now"

fun store_loop ::
  "string list \<Rightarrow> datetime \<Rightarrow> quote list \<Rightarrow> session \<times> change list \<Rightarrow>
   session \<times> change list" where
  "store_loop existing now [] acc = acc"
| "store_loop existing now (crypto # rest) (s, new_crypto_data_list) =
     store_loop existing now rest
       (session_add (upsert_crypto existing now crypto) s,
        new_crypto_data_list @ [new_crypto_data now crypto])"

definition store_crypto_data ::
  "database \<Rightarrow> datetime \<Rightarrow> datetime \<Rightarrow> quote list \<Rightarrow> database \<times> bool" where
  "store_crypto_data db now flushed_at crypto_list =
     (let existing = existing_cryptos db crypto_list;
          (s, new_crypto_data_list) =
             store_loop existing now crypto_list (begin_session db, []);
          s' = session_add_all new_crypto_data_list s
      in case commit flushed_at s' of
           Inr finished \<Rightarrow> (committed finished, True)
         | Inl e \<Rightarrow> (committed (rollback s'), False))"

subsection \<open>get\_latest\_top\_10\<close>

text \<open>
  The row of the result list: the dict with the nine keys of lines 133-143.
\<close>

record top_row =
  r_crypto_id :: string
  r_name :: string
  r_symbol :: string
  r_price_usd :: rat
  r_market_cap_usd :: rat
  r_volume_24h_usd :: rat
  r_price_change_24h_percent :: rat
  r_market_cap_rank :: int
  r_timestamp :: datetime

definition latest_timestamp :: "database \<Rightarrow> datetime option" where
  "latest_timestamp db =
     (case take 1 (rev (sort (map timestamp (crypto_data db)))) of
        [] \<Rightarrow> None
      | t # _ \<Rightarrow> Some t)"

definition join_cryptocurrency ::
  "CryptoCurrency list \<Rightarrow> CryptoData list \<Rightarrow> (CryptoData \<times> CryptoCurrency) list" where
  "join_cryptocurrency ccs ds =
     concat (map (\<lambda>d. map (Pair d) (filter (\<lambda>c. crypto_id d = cc_id c) ccs)) ds)"

definition to_row :: "CryptoData \<times> CryptoCurrency \<Rightarrow> top_row" where
  "to_row dc =
     (case dc of (d, c) \<Rightarrow>
       \<lparr>r_crypto_id = crypto_id d,
        r_name = cc_name c,
        r_symbol = cc_symbol c,
        r_price_usd = price_usd d,
        r_market_cap_usd = market_cap_usd d,
        r_volume_24h_usd = volume_24h_usd d,
        r_price_change_24h_percent = price_change_24h_percent d,
        r_market_cap_rank = market_cap_rank d,
        r_timestamp = timestamp d\<rparr>)"

text \<open>
  \<open>ORDER BY market_cap_rank LIMIT 10\<close>; rows of equal rank keep their insertion
  order.
\<close>

definition get_latest_top_10 :: "database \<Rightarrow> top_row list" where
  "get_latest_top_10 db =
     (case latest_timestamp db of
        None \<Rightarrow> []
      | Some t \<Rightarrow>
          map to_row
            (take 10
              (sort_key (\<lambda>dc. market_cap_rank (fst dc))
                (join_cryptocurrency (cryptocurrencies db)
                  (filter (\<lambda>d. timestamp d = t) (crypto_data db))))))"

subsection \<open>log\_dashboard\_update\<close>

text \<open>
  \<open>json.dumps(top_10_data) if top_10_data else None\<close>: \<open>None\<close> and the empty
  list are both falsy. The JSON document is represented by the list it encodes.
\<close>

definition json_dumps_if :: "quote list option \<Rightarrow> quote list option" where
  "json_dumps_if top_10 =
     (case top_10 of None \<Rightarrow> None | Some [] \<Rightarrow> None | Some (q # qs) \<Rightarrow> Some (q # qs))"

definition log_dashboard_update ::
  "database \<Rightarrow> datetime \<Rightarrow> string \<Rightarrow> string option \<Rightarrow> bool \<Rightarrow> quote list option \<Rightarrow>
   database \<times> bool" where
  "log_dashboard_update db flushed_at st msg sent top_10 =
     (let update_log = New_DashboardUpdate (Some st) msg sent (json_dumps_if top_10);
          s = session_add update_log (begin_session db)
      in case commit flushed_at s of
           Inr finished \<Rightarrow> (committed finished, True)
         | Inl e \<Rightarrow> (committed (rollback s), False))"

subsection \<open>cleanup\_old\_data\<close>

text \<open>
  \<open>timedelta(days=d)\<close> raises \<open>OverflowError\<close> beyond 999999999 days, and so does
  a subtraction whose result leaves the range of \<open>datetime\<close>
  (0001-01-01T00:00:00 to 9999-12-31T23:59:59.999999).
\<close>

definition datetime_min :: datetime where
  "datetime_min = - 62135596800000000"

definition datetime_max :: datetime where
  "datetime_max = 253402300799999999"

definition timedelta_days :: "int \<Rightarrow> error + int" where
  "timedelta_days d =
     (if d < - 999999999 \<or> 999999999 < d then Inl OverflowError
      else Inr (d * 86400000000))"

definition datetime_sub :: "datetime \<Rightarrow> int \<Rightarrow> error + datetime" where
  "datetime_sub t delta =
     (let r = t - delta
      in if r < datetime_min \<or> datetime_max < r then Inl OverflowError else Inr r)"

definition cutoff_date :: "datetime \<Rightarrow> int \<Rightarrow> error + datetime" where
  "cutoff_date now days_to_keep =
     err_bind (timedelta_days days_to_keep) (\<lambda>delta. datetime_sub now delta)"

definition cleanup_old_data :: "database \<Rightarrow> datetime \<Rightarrow> int \<Rightarrow> database \<times> bool" where
  "cleanup_old_data db now days_to_keep =
     (case cutoff_date now days_to_keep of
        Inl e \<Rightarrow> (db, False)
      | Inr cutoff \<Rightarrow>
          (db\<lparr>crypto_data := filter (\<lambda>d. \<not> timestamp d < cutoff) (crypto_data db),
              dashboard_updates :=
                filter (\<lambda>u. \<not> update_timestamp u < cutoff) (dashboard_updates db)\<rparr>,
           True))"

section \<open>CryptoService (services/crypto\_service.py)\<close>

text \<open>
  An element of the response array: the nine fields the loop reads, each possibly
  \<open>null\<close>. The call either raises (network error, non-2xx status, unreadable body)
  or yields the decoded array.
\<close>

record coin =
  coin_id :: "string option"
  coin_name :: "string option"
  coin_symbol :: "string option"
  current_price :: "rat option"
  market_cap :: "rat option"
  total_volume :: "rat option"
  price_change_percentage_24h :: "rat option"
  coin_market_cap_rank :: "int option"
  image :: "string option"

datatype api_call = Request_raises | Payload "coin list"

text \<open>\<open>str.upper\<close> on the ASCII letters; other characters are left as they are.\<close>

definition upper_char :: "char \<Rightarrow> char" where
  "upper_char c =
     (let n = (of_char c :: nat) in if 97 \<le> n \<and> n \<le> 122 then char_of (n - 32) else c)"

definition upper :: "string option \<Rightarrow> error + string" where
  "upper v = (case v of None \<Rightarrow> Inl AttributeError | Some s \<Rightarrow> Inr (map upper_char s))"

definition or_zero :: "rat option \<Rightarrow> rat option" where
  "or_zero v = (case v of None \<Rightarrow> Some 0 | Some x \<Rightarrow> if x = 0 then Some 0 else Some x)"

definition transform_coin :: "coin \<Rightarrow> error + quote" where
  "transform_coin c =
     err_bind (upper (coin_symbol c)) (\<lambda>sym.
       Inr \<lparr>q_id = coin_id c,
            q_name = coin_name c,
            q_symbol = Some sym,
            q_price_usd = current_price c,
            q_market_cap_usd = market_cap c,
            q_volume_24h_usd = total_volume c,
            q_price_change_24h_percent = or_zero (price_change_percentage_24h c),
            q_market_cap_rank = coin_market_cap_rank c,
            q_image_url = image c\<rparr>)"

fun transform :: "coin list \<Rightarrow> quote list \<Rightarrow> error + quote list" where
  "transform [] crypto_list = Inr crypto_list"
| "transform (c # data) crypto_list =
     err_bind (transform_coin c) (\<lambda>crypto_data. transform data (crypto_list @ [crypto_data]))"

definition fetch_top_10_cryptocurrencies :: "api_call \<Rightarrow> quote list option" where
  "fetch_top_10_cryptocurrencies r =
     (case r of
        Request_raises \<Rightarrow> None
      | Payload data \<Rightarrow>
          (case transform data [] of Inl e \<Rightarrow> None | Inr crypto_list \<Rightarrow> Some crypto_list))"

section \<open>The scheduled handler (lambda\_function.py)\<close>

text \<open>
  \<open>EmailService\<close> talks to AWS SES. Both entry points catch every exception and
  return a boolean, so each is a call recorded in the order made, with a result the
  environment decides. The environment also fixes the response of the API and the clock
  readings of the run.
\<close>

datatype email = Daily_dashboard_email "quote list" | Error_notification string

record environment =
  api :: api_call
  store_now :: datetime
  store_flushed_at :: datetime
  log_flushed_at :: datetime
  response_now :: datetime
  send_daily_dashboard_email :: "quote list \<Rightarrow> bool"
  send_error_notification :: "string \<Rightarrow> bool"

record response =
  statusCode :: int
  body_status :: string
  body_message :: string
  body_timestamp :: "datetime option"
  body_cryptocurrencies_updated :: "nat option"
  body_email_sent :: "bool option"

definition error_response :: "string \<Rightarrow> response" where
  "error_response error_msg =
     \<lparr>statusCode = 500, body_status = ''error'', body_message = error_msg,
      body_timestamp = None, body_cryptocurrencies_updated = None, body_email_sent = None\<rparr>"

definition fetch_error_msg :: string where
  "fetch_error_msg = ''Failed to fetch cryptocurrency data from CoinGecko API''"

definition store_error_msg :: string where
  "store_error_msg = ''Failed to store cryptocurrency data in database''"

definition failed_run ::
  "environment \<Rightarrow> database \<Rightarrow> string \<Rightarrow> database \<times> email list \<times> response" where
  "failed_run env db error_msg =
     (let (db', logged) =
            log_dashboard_update db (log_flushed_at env) ''failed'' (Some error_msg) False None;
          notified = send_error_notification env error_msg
      in (db', [Error_notification error_msg], error_response error_msg))"

text \<open>
  \<open>if not crypto_data\<close> holds for \<open>None\<close> and for the empty list. No service
  call lets an exception escape, so the handler's outer \<open>except\<close> has no branch here.
\<close>

definition lambda_handler ::
  "environment \<Rightarrow> database \<Rightarrow> database \<times> email list \<times> response" where
  "lambda_handler env db =
     (case fetch_top_10_cryptocurrencies (api env) of
        None \<Rightarrow> failed_run env db fetch_error_msg
      | Some [] \<Rightarrow> failed_run env db fetch_error_msg
      | Some (q # qs) \<Rightarrow>
          let crypto_list = q # qs;
              (db1, storage_success) =
                store_crypto_data db (store_now env) (store_flushed_at env) crypto_list
          in if \<not> storage_success then failed_run env db1 store_error_msg
             else
               let email_sent = send_daily_dashboard_email env crypto_list;
                   (db2, logged) =
                     log_dashboard_update db1 (log_flushed_at env) ''success'' None
                       email_sent None
               in (db2, [Daily_dashboard_email crypto_list],
                   \<lparr>statusCode = 200, body_status = ''success'',
                    body_message = ''Dashboard updated successfully'',
                    body_timestamp = Some (response_now env),
                    body_cryptocurrencies_updated = Some (length crypto_list),
                    body_email_sent = Some email_sent\<rparr>))"

section \<open>Validity of a batch\<close>

text \<open>
  A quote is storable when every column accepts its value; it is stored exactly when,
  in addition, price and market capitalisation have no more decimals than their columns
  keep.
\<close>

definition accepted :: "error + 'a \<Rightarrow> bool" where
  "accepted r = (case r of Inl e \<Rightarrow> False | Inr x \<Rightarrow> True)"

definition storable_quote :: "quote \<Rightarrow> bool" where
  "storable_quote q \<longleftrightarrow>
     accepted (String_col 50 (q_id q)) \<and>
     accepted (String_col 100 (q_name q)) \<and>
     accepted (String_col 10 (q_symbol q)) \<and>
     accepted (Numeric_col 20 8 (q_price_usd q)) \<and>
     accepted (Numeric_col 20 2 (q_market_cap_usd q)) \<and>
     accepted (Numeric_col 20 2 (q_volume_24h_usd q)) \<and>
     accepted (Numeric_col 10 4 (q_price_change_24h_percent q)) \<and>
     accepted (Integer_col (q_market_cap_rank q))"

definition stored_exactly :: "nat \<Rightarrow> nat \<Rightarrow> rat option \<Rightarrow> bool" where
  "stored_exactly p s v = (case v of None \<Rightarrow> False | Some x \<Rightarrow> Numeric_col p s v = Inr x)"

definition valid_quote :: "quote \<Rightarrow> bool" where
  "valid_quote q \<longleftrightarrow>
     storable_quote q \<and>
     stored_exactly 20 8 (q_price_usd q) \<and>
     stored_exactly 20 2 (q_market_cap_usd q)"

text \<open>The primary key of \<open>cryptocurrencies\<close> is unique in every database state.\<close>

definition primary_key_ok :: "database \<Rightarrow> bool" where
  "primary_key_ok db \<longleftrightarrow> distinct (map cc_id (cryptocurrencies db))"

text \<open>The fields of a result row, and of a quote, that the dashboard compares.\<close>

definition row_view :: "top_row \<Rightarrow> string option \<times> int option \<times> rat option \<times> rat option" where
  "row_view r =
     (Some (r_crypto_id r), Some (r_market_cap_rank r), Some (r_price_usd r),
      Some (r_market_cap_usd r))"

definition quote_view :: "quote \<Rightarrow> string option \<times> int option \<times> rat option \<times> rat option" where
  "quote_view q = (q_id q, q_market_cap_rank q, q_price_usd q, q_market_cap_usd q)"

text \<open>
  \<open>persisted now q r\<close>: \<open>r\<close> is the \<open>crypto_data\<close> row the database keeps of the
  quote \<open>q\<close> stamped \<open>now\<close>.
\<close>

definition persisted :: "datetime \<Rightarrow> quote \<Rightarrow> CryptoData \<Rightarrow> bool" where
  "persisted now q r \<longleftrightarrow>
     timestamp r = now \<and>
     String_col 50 (q_id q) = Inr (crypto_id r) \<and>
     Numeric_col 20 8 (q_price_usd q) = Inr (price_usd r) \<and>
     Numeric_col 20 2 (q_market_cap_usd q) = Inr (market_cap_usd r) \<and>
     Numeric_col 20 2 (q_volume_24h_usd q) = Inr (volume_24h_usd r) \<and>
     Numeric_col 10 4 (q_price_change_24h_percent q) = Inr (price_change_24h_percent r) \<and>
     Integer_col (q_market_cap_rank q) = Inr (market_cap_rank r)"

text \<open>\<open>normalized c q\<close>: the quote \<open>q\<close> carries the fields of the response element \<open>c\<close>.\<close>

definition normalized :: "coin \<Rightarrow> quote \<Rightarrow> bool" where
  "normalized c q \<longleftrightarrow>
     q_id q = coin_id c \<and>
     q_name q = coin_name c \<and>
     q_symbol q = map_option (map upper_char) (coin_symbol c) \<and>
     q_price_usd q = current_price c \<and>
     q_market_cap_usd q = market_cap c \<and>
     q_volume_24h_usd q = total_volume c \<and>
     q_price_change_24h_percent q =
       (case price_change_percentage_24h c of None \<Rightarrow> Some 0 | Some x \<Rightarrow> Some x) \<and>
     q_market_cap_rank q = coin_market_cap_rank c \<and>
     q_image_url q = image c"

section \<open>Example data\<close>

text \<open>
  A database holding the snapshot of an earlier run, a batch of ten quotes in arbitrary
  order, and the same batch whose seventh quote has no rank.
\<close>

definition example_quote :: "string \<Rightarrow> rat \<Rightarrow> rat \<Rightarrow> int option \<Rightarrow> quote" where
  "example_quote i p m r =
     \<lparr>q_id = Some i, q_name = Some i, q_symbol = Some ''X'',
      q_price_usd = Some p, q_market_cap_usd = Some m,
      q_volume_24h_usd = Some 1000, q_price_change_24h_percent = Some (5 / 4),
      q_market_cap_rank = r, q_image_url = None\<rparr>"

definition example_db :: database where
  "example_db =
     \<lparr>cryptocurrencies =
        [\<lparr>cc_id = ''a'', cc_name = ''a'', cc_symbol = ''X'',
          cc_created_at = 1000, cc_updated_at = 1000\<rparr>],
      crypto_data =
        [\<lparr>crypto_id = ''a'', price_usd = 90, market_cap_usd = 900, volume_24h_usd = 1000,
          price_change_24h_percent = 1, market_cap_rank = 1, timestamp = 1000\<rparr>],
      dashboard_updates = []\<rparr>"

definition example_batch :: "quote list" where
  "example_batch =
     [example_quote ''c'' (5 / 2) 80 (Some 3),
      example_quote ''a'' 100 1000 (Some 1),
      example_quote ''b'' (1 / 4) 90 (Some 2),
      example_quote ''d'' 4 70 (Some 4),
      example_quote ''e'' 5 60 (Some 5),
      example_quote ''f'' 6 50 (Some 6),
      example_quote ''g'' 7 40 (Some 7),
      example_quote ''h'' 8 30 (Some 8),
      example_quote ''j'' 10 10 (Some 10),
      example_quote ''i'' 9 20 (Some 9)]"

definition failing_batch :: "quote list" where
  "failing_batch =
     [example_quote ''c'' (5 / 2) 80 (Some 3),
      example_quote ''a'' 100 1000 (Some 1),
      example_quote ''b'' (1 / 4) 90 (Some 2),
      example_quote ''d'' 4 70 (Some 4),
      example_quote ''e'' 5 60 (Some 5),
      example_quote ''f'' 6 50 (Some 6),
      example_quote ''g'' 7 40 None,
      example_quote ''h'' 8 30 (Some 8),
      example_quote ''j'' 10 10 (Some 10),
      example_quote ''i'' 9 20 (Some 9)]"

text \<open>
  The response of the API that yields the example batch, a response whose second element
  has no 24h change, and an environment in which the daily email is not delivered.
\<close>

definition example_coin :: "string \<Rightarrow> rat \<Rightarrow> rat \<Rightarrow> int option \<Rightarrow> coin" where
  "example_coin i p m r =
     \<lparr>coin_id = Some i, coin_name = Some i, coin_symbol = Some ''x'',
      current_price = Some p, market_cap = Some m,
      total_volume = Some 1000, price_change_percentage_24h = Some (5 / 4),
      coin_market_cap_rank = r, image = None\<rparr>"

definition example_coins :: "coin list" where
  "example_coins =
     [example_coin ''c'' (5 / 2) 80 (Some 3),
      example_coin ''a'' 100 1000 (Some 1),
      example_coin ''b'' (1 / 4) 90 (Some 2),
      example_coin ''d'' 4 70 (Some 4),
      example_coin ''e'' 5 60 (Some 5),
      example_coin ''f'' 6 50 (Some 6),
      example_coin ''g'' 7 40 (Some 7),
      example_coin ''h'' 8 30 (Some 8),
      example_coin ''j'' 10 10 (Some 10),
      example_coin ''i'' 9 20 (Some 9)]"

definition short_payload :: "coin list" where
  "short_payload =
     [example_coin ''a'' 100 1000 (Some 1),
      (example_coin ''b'' (1 / 4) 90 (Some 2))\<lparr>price_change_percentage_24h := None\<rparr>]"

definition example_env :: environment where
  "example_env =
     \<lparr>api = Payload example_coins,
      store_now = 2000, store_flushed_at = 2001, log_flushed_at = 2002,
      response_now = 2003,
      send_daily_dashboard_email = (\<lambda>crypto_data. False),
      send_error_notification = (\<lambda>error_message. False)\<rparr>"

text \<open>
  Snapshots and run logs aged 5, 65 and 35 days at the reading \<open>aged_now\<close>
  (day 100 after the epoch).
\<close>

definition aged_row :: "datetime \<Rightarrow> CryptoData" where
  "aged_row t =
     \<lparr>crypto_id = ''a'', price_usd = 90, market_cap_usd = 900, volume_24h_usd = 1000,
      price_change_24h_percent = 1, market_cap_rank = 1, timestamp = t\<rparr>"

definition aged_update :: "datetime \<Rightarrow> DashboardUpdate" where
  "aged_update t =
     \<lparr>update_timestamp = t, status = ''success'', error_message = None,
      email_sent = True, top_10_data = None\<rparr>"

definition aged_now :: datetime where
  "aged_now = 8640000000000"

definition aged_db :: database where
  "aged_db =
     \<lparr>cryptocurrencies =
        [\<lparr>cc_id = ''a'', cc_name = ''a'', cc_symbol = ''X'',
          cc_created_at = 1000, cc_updated_at = 1000\<rparr>],
      crypto_data =
        [aged_row 8208000000000, aged_row 5616000000000, aged_row 3024000000000],
      dashboard_updates =
        [aged_update 8208000000000, aged_update 5616000000000,
         aged_update 3024000000000]\<rparr>"

section \<open>The error monad and the unit of work\<close>

lemma err_bind_simps [simp]: "err_bind (Inl e) f = Inl e" "err_bind (Inr x) f = f x"
  by (simp_all add: err_bind_def)

lemma err_bind_Inr_iff: "err_bind m f = Inr y \<longleftrightarrow> (\<exists>x. m = Inr x \<and> f x = Inr y)"
  by (cases m) simp_all

lemma accepted_iff: "accepted r \<longleftrightarrow> (\<exists>x. r = Inr x)"
  by (cases r) (simp_all add: accepted_def)

lemma store_loop_eq:
  "store_loop ex now qs (s, acc) =
     (s\<lparr>pending := pending s @ map (upsert_crypto ex now) qs\<rparr>,
      acc @ map (new_crypto_data now) qs)"
  by (induction qs arbitrary: s acc) (simp_all add: session_add_def)

lemma store_crypto_data_eq:
  "store_crypto_data db now f qs =
     (case flush f db (map (upsert_crypto (existing_cryptos db qs) now) qs @
                       map (new_crypto_data now) qs) of
        Inr db' \<Rightarrow> (db', True)
      | Inl e \<Rightarrow> (db, False))"
  by (simp add: store_crypto_data_def store_loop_eq begin_session_def session_add_all_def
      commit_def rollback_def err_bind_def split: sum.splits)

lemma flush_append:
  "flush f db (xs @ ys) = err_bind (flush f db xs) (\<lambda>d. flush f d ys)"
  by (induction xs arbitrary: db) (simp_all add: err_bind_def split: sum.splits)


text \<open>A change that is flushed passed the checks of its columns.\<close>

lemma flush_change_upsert_accepts:
  assumes "flush_change f d (upsert_crypto ex now q) = Inr d'"
  shows "accepted (String_col 100 (q_name q)) \<and> accepted (String_col 10 (q_symbol q))"
  using assms
  by (auto simp: upsert_crypto_def accepted_iff err_bind_Inr_iff split: option.splits if_splits)

lemma flush_change_data_accepts:
  assumes "flush_change f d (new_crypto_data now q) = Inr d'"
  shows "accepted (String_col 50 (q_id q)) \<and>
     accepted (Numeric_col 20 8 (q_price_usd q)) \<and>
     accepted (Numeric_col 20 2 (q_market_cap_usd q)) \<and>
     accepted (Numeric_col 20 2 (q_volume_24h_usd q)) \<and>
     accepted (Numeric_col 10 4 (q_price_change_24h_percent q)) \<and>
     accepted (Integer_col (q_market_cap_rank q))"
  using assms
  by (auto simp: new_crypto_data_def accepted_iff err_bind_Inr_iff split: if_splits)

lemma flush_map_accepts:
  assumes "flush f d (map g qs) = Inr d'" and "q \<in> set qs"
  shows "\<exists>d1 d2. flush_change f d1 (g q) = Inr d2"
  using assms
proof (induction qs arbitrary: d)
  case Nil
  then show ?case by simp
next
  case (Cons a qs)
  from Cons.prems(1) obtain d1 where a: "flush_change f d (g a) = Inr d1"
    and rest: "flush f d1 (map g qs) = Inr d'"
    by (auto simp: err_bind_Inr_iff)
  show ?case
  proof (cases "q = a")
    case True
    with a show ?thesis by blast
  next
    case False
    with Cons.prems(2) have "q \<in> set qs" by simp
    from Cons.IH [OF rest this] show ?thesis .
  qed
qed

lemma store_True_storable:
  assumes "store_crypto_data db now f qs = (db', True)" and "q \<in> set qs"
  shows "storable_quote q"
proof -
  from assms(1) obtain d1 where
    up: "flush f db (map (upsert_crypto (existing_cryptos db qs) now) qs) = Inr d1"
    and dat: "flush f d1 (map (new_crypto_data now) qs) = Inr db'"
    by (auto simp: store_crypto_data_eq flush_append err_bind_Inr_iff split: sum.splits)
  from flush_map_accepts [OF up assms(2)] flush_change_upsert_accepts
  have 1: "accepted (String_col 100 (q_name q)) \<and> accepted (String_col 10 (q_symbol q))"
    by blast
  from flush_map_accepts [OF dat assms(2)] flush_change_data_accepts
  have 2: "accepted (String_col 50 (q_id q)) \<and>
     accepted (Numeric_col 20 8 (q_price_usd q)) \<and>
     accepted (Numeric_col 20 2 (q_market_cap_usd q)) \<and>
     accepted (Numeric_col 20 2 (q_volume_24h_usd q)) \<and>
     accepted (Numeric_col 10 4 (q_price_change_24h_percent q)) \<and>
     accepted (Integer_col (q_market_cap_rank q))"
    by blast
  from 1 2 show ?thesis by (simp add: storable_quote_def)
qed

lemma store_False_unchanged:
  "store_crypto_data db now f qs = (db', False) \<Longrightarrow> db' = db"
  by (auto simp: store_crypto_data_eq split: sum.splits)

lemma cc_id_set_attributes [simp]: "cc_id (set_attributes i n s t c) = cc_id c"
  by (simp add: set_attributes_def)

lemma cc_id_comp_set_attributes [simp]: "cc_id \<circ> set_attributes i n s t = cc_id"
  by (rule ext) simp

lemma String_col_accepted:
  "accepted (String_col n v) \<Longrightarrow> \<exists>s. v = Some s \<and> String_col n v = Inr s"
  by (cases v) (auto simp: String_col_def not_null_def accepted_def split: if_splits)

lemma flush_change_upsert:
  assumes "storable_quote q" and "q_id q = Some i"
    and "i \<in> set ex \<longleftrightarrow> i \<in> cc_id ` set (cryptocurrencies d)"
  shows "\<exists>d'. flush_change f d (upsert_crypto ex now q) = Inr d' \<and>
           crypto_data d' = crypto_data d \<and>
           dashboard_updates d' = dashboard_updates d \<and>
           set (map cc_id (cryptocurrencies d')) = insert i (set (map cc_id (cryptocurrencies d))) \<and>
           (distinct (map cc_id (cryptocurrencies d)) \<longrightarrow>
              distinct (map cc_id (cryptocurrencies d')))"
proof -
  from assms(1) obtain n s where n: "String_col 100 (q_name q) = Inr n"
    and s: "String_col 10 (q_symbol q) = Inr s" and i: "String_col 50 (q_id q) = Inr i"
    using String_col_accepted assms(2) unfolding storable_quote_def
    by (metis option.inject)
  show ?thesis
  proof (cases "i \<in> set ex")
    case True
    with assms(3) have "i \<in> cc_id ` set (cryptocurrencies d)" by simp
    with True n s show ?thesis
      by (simp add: upsert_crypto_def assms(2) insert_absorb image_comp)
  next
    case False
    with assms(3) have "i \<notin> cc_id ` set (cryptocurrencies d)" by simp
    with False n s i show ?thesis
      by (auto simp: upsert_crypto_def assms(2))
  qed
qed

lemma flush_upserts:
  assumes "\<forall>q \<in> set qs. storable_quote q" and "distinct (map q_id qs)"
    and "\<forall>q \<in> set qs. \<forall>i. q_id q = Some i \<longrightarrow>
           (i \<in> set ex \<longleftrightarrow> i \<in> cc_id ` set (cryptocurrencies d))"
  shows "\<exists>d'. flush f d (map (upsert_crypto ex now) qs) = Inr d' \<and>
           crypto_data d' = crypto_data d \<and>
           dashboard_updates d' = dashboard_updates d \<and>
           set (map cc_id (cryptocurrencies d')) =
             set (map cc_id (cryptocurrencies d)) \<union> {i. Some i \<in> q_id ` set qs} \<and>
           (distinct (map cc_id (cryptocurrencies d)) \<longrightarrow>
              distinct (map cc_id (cryptocurrencies d')))"
  using assms
proof (induction qs arbitrary: d)
  case Nil
  then show ?case by simp
next
  case (Cons q qs)
  from Cons.prems(1) have sq: "storable_quote q" by simp
  then obtain i where i: "q_id q = Some i"
    using String_col_accepted unfolding storable_quote_def by blast
  from Cons.prems(3) i have "i \<in> set ex \<longleftrightarrow> i \<in> cc_id ` set (cryptocurrencies d)"
    by simp
  from flush_change_upsert [OF sq i this, of f now] obtain d1 where
    d1: "flush_change f d (upsert_crypto ex now q) = Inr d1"
    and cd: "crypto_data d1 = crypto_data d"
    and du: "dashboard_updates d1 = dashboard_updates d"
    and ids: "set (map cc_id (cryptocurrencies d1)) = insert i (set (map cc_id (cryptocurrencies d)))"
    and dist: "distinct (map cc_id (cryptocurrencies d)) \<longrightarrow> distinct (map cc_id (cryptocurrencies d1))"
    by blast
  have rest: "\<forall>q' \<in> set qs. \<forall>j. q_id q' = Some j \<longrightarrow>
           (j \<in> set ex \<longleftrightarrow> j \<in> cc_id ` set (cryptocurrencies d1))"
  proof (intro ballI allI impI)
    fix q' j assume q': "q' \<in> set qs" and j: "q_id q' = Some j"
    from Cons.prems(2) have "q_id q \<notin> q_id ` set qs" by simp
    with q' have "q_id q' \<noteq> q_id q" by (metis imageI)
    with i j have "j \<noteq> i" by auto
    moreover from Cons.prems(3) q' j
    have "j \<in> set ex \<longleftrightarrow> j \<in> cc_id ` set (cryptocurrencies d)" by simp
    ultimately show "j \<in> set ex \<longleftrightarrow> j \<in> cc_id ` set (cryptocurrencies d1)"
      using ids by auto
  qed
  from Cons.prems have "\<forall>q \<in> set qs. storable_quote q" "distinct (map q_id qs)" by simp_all
  from Cons.IH [OF this rest] obtain d' where
    d': "flush f d1 (map (upsert_crypto ex now) qs) = Inr d'"
    and cd': "crypto_data d' = crypto_data d1"
    and du': "dashboard_updates d' = dashboard_updates d1"
    and ids': "set (map cc_id (cryptocurrencies d')) =
             set (map cc_id (cryptocurrencies d1)) \<union> {i. Some i \<in> q_id ` set qs}"
    and dist': "distinct (map cc_id (cryptocurrencies d1)) \<longrightarrow> distinct (map cc_id (cryptocurrencies d'))"
    by blast
  have "set (map cc_id (cryptocurrencies d')) =
      set (map cc_id (cryptocurrencies d)) \<union> {j. Some j \<in> q_id ` set (q # qs)}"
    using ids ids' i by auto
  with d1 d' cd cd' du du' dist dist' show ?case
    by simp
qed

lemma flush_change_primary_key:
  assumes "flush_change f d c = Inr d'"
  shows "cc_id ` set (cryptocurrencies d) \<subseteq> cc_id ` set (cryptocurrencies d')"
    and "primary_key_ok d \<Longrightarrow> primary_key_ok d'"
  using assms
proof -
  show "cc_id ` set (cryptocurrencies d) \<subseteq> cc_id ` set (cryptocurrencies d')"
    using assms
    by (cases c) (auto simp: err_bind_Inr_iff image_comp split: if_splits)
  show "primary_key_ok d \<Longrightarrow> primary_key_ok d'"
    using assms
    by (cases c) (auto simp: err_bind_Inr_iff primary_key_ok_def split: if_splits)
qed

lemma flush_primary_key:
  assumes "flush f d cs = Inr d'"
  shows "cc_id ` set (cryptocurrencies d) \<subseteq> cc_id ` set (cryptocurrencies d') \<and>
         (primary_key_ok d \<longrightarrow> primary_key_ok d')"
  using assms
proof (induction cs arbitrary: d)
  case Nil
  then show ?case by simp
next
  case (Cons c cs)
  then obtain d1 where 1: "flush_change f d c = Inr d1" and 2: "flush f d1 cs = Inr d'"
    by (auto simp: err_bind_Inr_iff)
  from flush_change_primary_key [OF 1] Cons.IH [OF 2] show ?case by blast
qed

lemma flush_upserts_frame:
  assumes "flush f d (map (upsert_crypto ex now) qs) = Inr d'"
  shows "crypto_data d' = crypto_data d \<and> dashboard_updates d' = dashboard_updates d"
  using assms
proof (induction qs arbitrary: d)
  case Nil
  then show ?case by simp
next
  case (Cons q qs)
  then obtain d1 where 1: "flush_change f d (upsert_crypto ex now q) = Inr d1"
    and 2: "flush f d1 (map (upsert_crypto ex now) qs) = Inr d'"
    by (auto simp: err_bind_Inr_iff)
  from 1 have "crypto_data d1 = crypto_data d \<and> dashboard_updates d1 = dashboard_updates d"
    by (auto simp: upsert_crypto_def err_bind_Inr_iff split: option.splits if_splits)
  with Cons.IH [OF 2] show ?case by simp
qed

lemma flush_change_data_shape:
  assumes "flush_change f d (new_crypto_data now q) = Inr d'"
  shows "\<exists>r. d' = d\<lparr>crypto_data := crypto_data d @ [r]\<rparr> \<and> persisted now q r \<and>
             crypto_id r \<in> cc_id ` set (cryptocurrencies d)"
  using assms
  by (auto simp: new_crypto_data_def err_bind_Inr_iff persisted_def split: if_splits)

lemma flush_data_shape:
  assumes "flush f d (map (new_crypto_data now) qs) = Inr d'"
  shows "\<exists>rows. d' = d\<lparr>crypto_data := crypto_data d @ rows\<rparr> \<and>
           list_all2 (persisted now) qs rows \<and>
           (\<forall>r \<in> set rows. crypto_id r \<in> cc_id ` set (cryptocurrencies d))"
  using assms
proof (induction qs arbitrary: d)
  case Nil
  then show ?case by simp
next
  case (Cons q qs)
  then obtain d1 where 1: "flush_change f d (new_crypto_data now q) = Inr d1"
    and 2: "flush f d1 (map (new_crypto_data now) qs) = Inr d'"
    by (auto simp: err_bind_Inr_iff)
  from flush_change_data_shape [OF 1] obtain r where
    r: "d1 = d\<lparr>crypto_data := crypto_data d @ [r]\<rparr>" "persisted now q r"
       "crypto_id r \<in> cc_id ` set (cryptocurrencies d)"
    by blast
  from Cons.IH [OF 2] obtain rows where
    rows: "d' = d1\<lparr>crypto_data := crypto_data d1 @ rows\<rparr>"
       "list_all2 (persisted now) qs rows"
       "\<forall>r \<in> set rows. crypto_id r \<in> cc_id ` set (cryptocurrencies d1)"
    by blast
  have "d' = d\<lparr>crypto_data := crypto_data d @ (r # rows)\<rparr>"
    using r(1) rows(1) by simp
  moreover have "list_all2 (persisted now) (q # qs) (r # rows)"
    using r(2) rows(2) by simp
  moreover have "\<forall>x \<in> set (r # rows). crypto_id x \<in> cc_id ` set (cryptocurrencies d)"
    using r(1,3) rows(3) by simp
  ultimately show ?case by blast
qed

lemma store_True_shape:
  assumes "store_crypto_data db now f qs = (db', True)"
  shows "\<exists>rows. crypto_data db' = crypto_data db @ rows \<and>
           list_all2 (persisted now) qs rows \<and>
           dashboard_updates db' = dashboard_updates db \<and>
           (\<forall>r \<in> set rows. crypto_id r \<in> cc_id ` set (cryptocurrencies db')) \<and>
           (primary_key_ok db \<longrightarrow> primary_key_ok db')"
proof -
  from assms obtain d1 where
    up: "flush f db (map (upsert_crypto (existing_cryptos db qs) now) qs) = Inr d1"
    and dat: "flush f d1 (map (new_crypto_data now) qs) = Inr db'"
    by (auto simp: store_crypto_data_eq flush_append err_bind_Inr_iff split: sum.splits)
  from flush_data_shape [OF dat] obtain rows where
    rows: "db' = d1\<lparr>crypto_data := crypto_data d1 @ rows\<rparr>"
       "list_all2 (persisted now) qs rows"
       "\<forall>r \<in> set rows. crypto_id r \<in> cc_id ` set (cryptocurrencies d1)"
    by blast
  from flush_upserts_frame [OF up] flush_primary_key [OF up] rows
  show ?thesis by (auto simp: primary_key_ok_def)
qed

lemma flush_data_ok:
  assumes "\<forall>q \<in> set qs. storable_quote q"
    and "\<forall>q \<in> set qs. \<forall>i. q_id q = Some i \<longrightarrow> i \<in> cc_id ` set (cryptocurrencies d)"
  shows "\<exists>d'. flush f d (map (new_crypto_data now) qs) = Inr d'"
  using assms
proof (induction qs arbitrary: d)
  case Nil
  then show ?case by simp
next
  case (Cons q qs)
  from Cons.prems(1) have sq: "storable_quote q" by simp
  then obtain i where i: "q_id q = Some i" "String_col 50 (q_id q) = Inr i"
    using String_col_accepted unfolding storable_quote_def by blast
  with Cons.prems(2) have mem: "i \<in> cc_id ` set (cryptocurrencies d)" by simp
  from sq obtain p m v c r where
    "Numeric_col 20 8 (q_price_usd q) = Inr p" "Numeric_col 20 2 (q_market_cap_usd q) = Inr m"
    "Numeric_col 20 2 (q_volume_24h_usd q) = Inr v"
    "Numeric_col 10 4 (q_price_change_24h_percent q) = Inr c"
    "Integer_col (q_market_cap_rank q) = Inr r"
    unfolding storable_quote_def accepted_iff by blast
  with i mem obtain d1 where d1: "flush_change f d (new_crypto_data now q) = Inr d1"
    and cc: "cryptocurrencies d1 = cryptocurrencies d"
    by (simp add: new_crypto_data_def)
  from Cons.prems cc have "\<forall>q \<in> set qs. storable_quote q"
    "\<forall>q \<in> set qs. \<forall>i. q_id q = Some i \<longrightarrow> i \<in> cc_id ` set (cryptocurrencies d1)"
    by simp_all
  from Cons.IH [OF this] d1 show ?case by simp
qed

lemma existing_cryptos_iff:
  assumes "q \<in> set qs" and "q_id q = Some i"
  shows "i \<in> set (existing_cryptos db qs) \<longleftrightarrow> i \<in> cc_id ` set (cryptocurrencies db)"
proof
  assume "i \<in> set (existing_cryptos db qs)"
  then show "i \<in> cc_id ` set (cryptocurrencies db)"
    unfolding existing_cryptos_def by auto
next
  assume "i \<in> cc_id ` set (cryptocurrencies db)"
  then obtain c where c: "c \<in> set (cryptocurrencies db)" "cc_id c = i" by blast
  from assms have "Some i \<in> set (map q_id qs)" by force
  with c show "i \<in> set (existing_cryptos db qs)"
    unfolding existing_cryptos_def by force
qed

lemma store_ok:
  assumes "\<forall>q \<in> set qs. storable_quote q" and "distinct (map q_id qs)"
  shows "\<exists>db'. store_crypto_data db now f qs = (db', True)"
proof -
  have ex: "\<forall>q \<in> set qs. \<forall>i. q_id q = Some i \<longrightarrow>
           (i \<in> set (existing_cryptos db qs) \<longleftrightarrow> i \<in> cc_id ` set (cryptocurrencies db))"
    using existing_cryptos_iff by blast
  from flush_upserts [OF assms ex, of f now] obtain d1 where
    up: "flush f db (map (upsert_crypto (existing_cryptos db qs) now) qs) = Inr d1"
    and ids: "set (map cc_id (cryptocurrencies d1)) =
             set (map cc_id (cryptocurrencies db)) \<union> {i. Some i \<in> q_id ` set qs}"
    by blast
  have "\<forall>q \<in> set qs. \<forall>i. q_id q = Some i \<longrightarrow> i \<in> cc_id ` set (cryptocurrencies d1)"
  proof (intro ballI allI impI)
    fix q i assume "q \<in> set qs" "q_id q = Some i"
    then have "Some i \<in> q_id ` set qs" by force
    then have "i \<in> set (map cc_id (cryptocurrencies d1))" unfolding ids by simp
    then show "i \<in> cc_id ` set (cryptocurrencies d1)" by simp
  qed
  from flush_data_ok [OF assms(1) this, of f now] obtain d2 where
    "flush f d1 (map (new_crypto_data now) qs) = Inr d2" by blast
  with up show ?thesis by (simp add: store_crypto_data_eq flush_append)
qed

section \<open>Atomicity of store\_crypto\_data\<close>

text \<open>
  C2. \<open>store_crypto_data\<close> is atomic. Whenever a quote of the batch violates a
  column constraint the call returns \<open>False\<close>; and whenever the call returns
  \<open>False\<close>, for whatever row, the database is the one it started from: no
  \<open>CryptoCurrency\<close> or \<open>CryptoData\<close> row of the batch persists and
  \<open>get_latest_top_10\<close> answers as before the call.
\<close>

theorem store_crypto_data_atomic:
  assumes "store_crypto_data db now flushed_at crypto_list = (db', ok)"
  shows "((\<exists>q \<in> set crypto_list. \<not> storable_quote q) \<longrightarrow> \<not> ok) \<and>
         (\<not> ok \<longrightarrow> db' = db \<and> get_latest_top_10 db' = get_latest_top_10 db)"
proof (intro conjI impI)
  assume "\<exists>q \<in> set crypto_list. \<not> storable_quote q"
  then obtain q where q: "q \<in> set crypto_list" "\<not> storable_quote q" by blast
  show "\<not> ok"
  proof
    assume ok
    with assms have "store_crypto_data db now flushed_at crypto_list = (db', True)" by simp
    from store_True_storable [OF this q(1)] q(2) show False by simp
  qed
next
  assume "\<not> ok"
  with assms have "store_crypto_data db now flushed_at crypto_list = (db', False)" by simp
  then show "db' = db" by (rule store_False_unchanged)
  then show "get_latest_top_10 db' = get_latest_top_10 db" by simp
qed

text \<open>The seventh of ten quotes has no rank: nothing of the batch is stored.\<close>

theorem store_crypto_data_atomic_witness:
  "store_crypto_data example_db 2000 2000 failing_batch = (example_db, False) \<and>
   get_latest_top_10 (fst (store_crypto_data example_db 2000 2000 failing_batch)) =
     get_latest_top_10 example_db"
proof -
  have "\<not> accepted (Integer_col None)"
    by (simp add: Integer_col_def not_null_def accepted_def)
  then have "\<not> storable_quote (example_quote ''g'' 7 40 None)"
    by (simp add: storable_quote_def example_quote_def)
  moreover have "example_quote ''g'' 7 40 None \<in> set failing_batch"
    by (simp add: failing_batch_def)
  ultimately have bad: "\<exists>q \<in> set failing_batch. \<not> storable_quote q"
    by blast
  have "store_crypto_data example_db 2000 2000 failing_batch =
      (fst (store_crypto_data example_db 2000 2000 failing_batch),
       snd (store_crypto_data example_db 2000 2000 failing_batch))"
    by simp
  from store_crypto_data_atomic [OF this] bad
  have "\<not> snd (store_crypto_data example_db 2000 2000 failing_batch)"
    and "fst (store_crypto_data example_db 2000 2000 failing_batch) = example_db"
    by blast+
  then show ?thesis
    by (simp add: prod_eq_iff)
qed

section \<open>Reading the latest snapshot\<close>

lemma sort_key_Nil_iff: "sort_key f xs = [] \<longleftrightarrow> xs = []"
  by (metis length_sort length_0_conv)

lemma latest_timestamp_None: "latest_timestamp db = None \<longleftrightarrow> crypto_data db = []"
  by (cases "rev (sort (map timestamp (crypto_data db)))")
     (auto simp: latest_timestamp_def sort_key_Nil_iff)

lemma latest_timestamp_Some:
  assumes "latest_timestamp db = Some t"
  shows "t \<in> timestamp ` set (crypto_data db)"
    and "\<forall>d \<in> set (crypto_data db). timestamp d \<le> t"
proof -
  let ?ys = "sort (map timestamp (crypto_data db))"
  from assms obtain rest where r: "rev ?ys = t # rest"
    by (cases "rev ?ys") (auto simp: latest_timestamp_def)
  then have ys: "?ys = rev rest @ [t]"
    by (metis rev_rev_ident rev.simps(2))
  have "t \<in> set ?ys" unfolding ys by simp
  then show "t \<in> timestamp ` set (crypto_data db)" by simp
  have "sorted ?ys" by simp
  then have "\<forall>x \<in> set (rev rest). x \<le> t"
    unfolding ys by (simp add: sorted_append)
  then have "\<forall>x \<in> set ?ys. x \<le> t"
    unfolding ys by auto
  then show "\<forall>d \<in> set (crypto_data db). timestamp d \<le> t" by simp
qed

lemma latest_timestamp_newest:
  assumes "crypto_data db = old @ rows" and "rows \<noteq> []"
    and "\<forall>d \<in> set old. timestamp d \<le> now" and "\<forall>r \<in> set rows. timestamp r = now"
  shows "latest_timestamp db = Some now"
proof -
  from assms(1,2) have "crypto_data db \<noteq> []" by simp
  then obtain t where t: "latest_timestamp db = Some t"
    using latest_timestamp_None by (cases "latest_timestamp db") auto
  from assms(2) obtain r where r: "r \<in> set rows" by (cases rows) auto
  with assms(1) have "r \<in> set (crypto_data db)" by simp
  with latest_timestamp_Some(2) [OF t] have "timestamp r \<le> t" by blast
  with r assms(4) have 1: "now \<le> t" by simp
  from latest_timestamp_Some(1) [OF t] obtain d where
    d: "d \<in> set (crypto_data db)" "t = timestamp d" by blast
  with assms(1,3,4) have "t \<le> now" by auto
  with 1 t show ?thesis by simp
qed

lemma filter_unique_key:
  assumes "distinct (map f xs)" and "k \<in> f ` set xs"
  shows "\<exists>x. filter (\<lambda>c. k = f c) xs = [x]"
  using assms
proof (induction xs)
  case Nil
  then show ?case by simp
next
  case (Cons a xs)
  show ?case
  proof (cases "k = f a")
    case True
    with Cons.prems(1) have "\<forall>c \<in> set xs. k \<noteq> f c" by force
    then have "filter (\<lambda>c. k = f c) xs = []" by (simp add: filter_empty_conv)
    with True show ?thesis by simp
  next
    case False
    with Cons.prems have "distinct (map f xs)" "k \<in> f ` set xs" by auto
    from Cons.IH [OF this] False show ?thesis by simp
  qed
qed

lemma map_fst_join:
  assumes "distinct (map cc_id ccs)" and "\<forall>d \<in> set ds. crypto_id d \<in> cc_id ` set ccs"
  shows "map fst (join_cryptocurrency ccs ds) = ds"
  using assms(2)
proof (induction ds)
  case Nil
  then show ?case by (simp add: join_cryptocurrency_def)
next
  case (Cons d ds)
  then have "crypto_id d \<in> cc_id ` set ccs" by simp
  from filter_unique_key [OF assms(1) this] obtain c where
    "filter (\<lambda>c. crypto_id d = cc_id c) ccs = [c]" by blast
  moreover from Cons have "map fst (join_cryptocurrency ccs ds) = ds" by simp
  ultimately show ?case by (simp add: join_cryptocurrency_def)
qed

lemma get_latest_top_10_newest:
  assumes "crypto_data db = old @ rows" and "rows \<noteq> []"
    and "\<forall>d \<in> set old. timestamp d < now" and "\<forall>r \<in> set rows. timestamp r = now"
    and "primary_key_ok db"
    and "\<forall>r \<in> set rows. crypto_id r \<in> cc_id ` set (cryptocurrencies db)"
  shows "\<exists>joined. get_latest_top_10 db =
           map to_row (take 10 (sort_key (\<lambda>dc. market_cap_rank (fst dc)) joined)) \<and>
           map fst joined = rows"
proof -
  from assms(3) have "\<forall>d \<in> set old. timestamp d \<le> now" by auto
  from latest_timestamp_newest [OF assms(1,2) this assms(4)]
  have t: "latest_timestamp db = Some now" .
  from assms(3) have "filter (\<lambda>d. timestamp d = now) old = []"
    by (auto simp: filter_empty_conv)
  moreover from assms(4) have "filter (\<lambda>d. timestamp d = now) rows = rows"
    by (simp add: filter_id_conv)
  ultimately have f: "filter (\<lambda>d. timestamp d = now) (crypto_data db) = rows"
    by (simp add: assms(1))
  from assms(5) have "distinct (map cc_id (cryptocurrencies db))"
    by (simp add: primary_key_ok_def)
  from map_fst_join [OF this assms(6)]
  have "map fst (join_cryptocurrency (cryptocurrencies db) rows) = rows" .
  with t f show ?thesis
    by (auto simp: get_latest_top_10_def)
qed

lemma persisted_view:
  assumes "valid_quote q" and "persisted now q r"
  shows "(Some (crypto_id r), Some (market_cap_rank r), Some (price_usd r),
          Some (market_cap_usd r)) = quote_view q"
proof -
  from assms(2) have i: "String_col 50 (q_id q) = Inr (crypto_id r)"
    and k: "Integer_col (q_market_cap_rank q) = Inr (market_cap_rank r)"
    and p: "Numeric_col 20 8 (q_price_usd q) = Inr (price_usd r)"
    and m: "Numeric_col 20 2 (q_market_cap_usd q) = Inr (market_cap_usd r)"
    by (simp_all add: persisted_def)
  from i have 1: "q_id q = Some (crypto_id r)"
    by (cases "q_id q") (auto simp: String_col_def not_null_def split: if_splits)
  from k have 2: "q_market_cap_rank q = Some (market_cap_rank r)"
    by (cases "q_market_cap_rank q") (auto simp: Integer_col_def not_null_def split: if_splits)
  from assms(1) p have 3: "q_price_usd q = Some (price_usd r)"
    by (cases "q_price_usd q") (auto simp: valid_quote_def stored_exactly_def)
  from assms(1) m have 4: "q_market_cap_usd q = Some (market_cap_usd r)"
    by (cases "q_market_cap_usd q") (auto simp: valid_quote_def stored_exactly_def)
  from 1 2 3 4 show ?thesis by (simp add: quote_view_def)
qed

lemma row_view_to_row:
  "row_view (to_row dc) =
     (Some (crypto_id (fst dc)), Some (market_cap_rank (fst dc)), Some (price_usd (fst dc)),
      Some (market_cap_usd (fst dc)))"
  by (cases dc) (simp add: row_view_def to_row_def)

lemma persisted_views:
  assumes "list_all2 (persisted now) qs rows" and "\<forall>q \<in> set qs. valid_quote q"
  shows "map (\<lambda>d. (Some (crypto_id d), Some (market_cap_rank d), Some (price_usd d),
                     Some (market_cap_usd d))) rows = map quote_view qs"
  using assms
  by (induction qs rows rule: list_all2_induct) (simp_all add: persisted_view)

section \<open>Store, then read\<close>

text \<open>
  C1. For every list of ten valid quotes with distinct ranks (and distinct ids), stored
  in a database whose primary key is unique, at a clock reading later than every
  timestamp already in the table, the call of
  \<open>store_crypto_data\<close> succeeds and \<open>get_latest_top_10\<close> then returns ten rows
  whose id, rank, price and market capitalisation are exactly those of the ten quotes,
  in strictly ascending order of \<open>market_cap_rank\<close>.
\<close>

theorem store_then_get_latest_top_10:
  assumes "length crypto_list = 10"
    and "\<forall>q \<in> set crypto_list. valid_quote q"
    and "distinct (map q_market_cap_rank crypto_list)"
    and "distinct (map q_id crypto_list)"
    and "primary_key_ok db"
    and "\<forall>d \<in> set (crypto_data db). timestamp d < now"
  shows "\<exists>db'. store_crypto_data db now flushed_at crypto_list = (db', True) \<and>
           length (get_latest_top_10 db') = 10 \<and>
           sorted_wrt (<) (map r_market_cap_rank (get_latest_top_10 db')) \<and>
           mset (map row_view (get_latest_top_10 db')) = mset (map quote_view crypto_list)"
proof -
  from assms(2) have "\<forall>q \<in> set crypto_list. storable_quote q"
    by (simp add: valid_quote_def)
  from store_ok [OF this assms(4)] obtain db' where
    st: "store_crypto_data db now flushed_at crypto_list = (db', True)" by blast
  from store_True_shape [OF st] assms(5) obtain rows where
    cd: "crypto_data db' = crypto_data db @ rows"
    and per: "list_all2 (persisted now) crypto_list rows"
    and fk: "\<forall>r \<in> set rows. crypto_id r \<in> cc_id ` set (cryptocurrencies db')"
    and pk: "primary_key_ok db'"
    by blast
  from per have len: "length rows = 10"
    using assms(1) by (simp add: list_all2_lengthD)
  then have ne: "rows \<noteq> []" by auto
  from per have ts: "\<forall>r \<in> set rows. timestamp r = now"
    by (auto simp: list_all2_conv_all_nth in_set_conv_nth persisted_def)
  from get_latest_top_10_newest [OF cd ne assms(6) ts pk fk] obtain joined where
    res: "get_latest_top_10 db' =
           map to_row (take 10 (sort_key (\<lambda>dc. market_cap_rank (fst dc)) joined))"
    and j: "map fst joined = rows"
    by blast
  from j len have lj: "length joined = 10" by (metis length_map)
  then have res': "get_latest_top_10 db' =
      map to_row (sort_key (\<lambda>dc. market_cap_rank (fst dc)) joined)"
    using res by simp
  have ranks: "map r_market_cap_rank (get_latest_top_10 db') =
      map (\<lambda>dc. market_cap_rank (fst dc)) (sort_key (\<lambda>dc. market_cap_rank (fst dc)) joined)"
    unfolding res' by (simp add: to_row_def split_beta)
  have views: "map row_view (get_latest_top_10 db') =
      map (\<lambda>dc. (Some (crypto_id (fst dc)), Some (market_cap_rank (fst dc)),
                  Some (price_usd (fst dc)), Some (market_cap_usd (fst dc))))
        (sort_key (\<lambda>dc. market_cap_rank (fst dc)) joined)"
    unfolding res' by (simp add: row_view_to_row)
  have "mset (map row_view (get_latest_top_10 db')) =
      mset (map (\<lambda>d. (Some (crypto_id d), Some (market_cap_rank d), Some (price_usd d),
                     Some (market_cap_usd d))) (map fst joined))"
    unfolding views by (simp add: comp_def)
  also have "\<dots> = mset (map quote_view crypto_list)"
    unfolding j using persisted_views [OF per assms(2)] by simp
  finally have ms: "mset (map row_view (get_latest_top_10 db')) =
      mset (map quote_view crypto_list)" .
  have "mset (map (fst \<circ> snd) (map row_view (get_latest_top_10 db'))) =
      mset (map (fst \<circ> snd) (map quote_view crypto_list))"
    using ms by (metis mset_map)
  then have "mset (map (Some \<circ> r_market_cap_rank) (get_latest_top_10 db')) =
      mset (map q_market_cap_rank crypto_list)"
    by (simp add: comp_def row_view_def quote_view_def)
  with assms(3) have "distinct (map (Some \<circ> r_market_cap_rank) (get_latest_top_10 db'))"
    by (metis mset_eq_imp_distinct_iff)
  then have "distinct (map r_market_cap_rank (get_latest_top_10 db'))"
    by (simp add: distinct_map comp_def inj_on_def)
  moreover have "sorted (map r_market_cap_rank (get_latest_top_10 db'))"
    unfolding ranks by simp
  ultimately have "sorted_wrt (<) (map r_market_cap_rank (get_latest_top_10 db'))"
    by (simp add: strict_sorted_iff)
  moreover have "length (get_latest_top_10 db') = 10"
    unfolding res' using lj by simp
  ultimately show ?thesis using st ms by blast
qed

lemma example_batch_valid: "\<forall>q \<in> set example_batch. valid_quote q"
  by code_simp

text \<open>The ten quotes of the example batch, stored over the earlier snapshot.\<close>

theorem store_then_get_latest_top_10_witness:
  "snd (store_crypto_data example_db 2000 2000 example_batch) \<and>
   length (get_latest_top_10 (fst (store_crypto_data example_db 2000 2000 example_batch))) = 10 \<and>
   sorted_wrt (<) (map r_market_cap_rank
     (get_latest_top_10 (fst (store_crypto_data example_db 2000 2000 example_batch)))) \<and>
   mset (map row_view
     (get_latest_top_10 (fst (store_crypto_data example_db 2000 2000 example_batch)))) =
   mset (map quote_view example_batch)"
proof -
  have 1: "length example_batch = 10" by (simp add: example_batch_def)
  have 3: "distinct (map q_market_cap_rank example_batch)"
    by (simp add: example_batch_def example_quote_def)
  have 4: "distinct (map q_id example_batch)"
    by (simp add: example_batch_def example_quote_def)
  have 5: "primary_key_ok example_db" by (simp add: primary_key_ok_def example_db_def)
  have 6: "\<forall>d \<in> set (crypto_data example_db). timestamp d < 2000"
    by (simp add: example_db_def)
  from store_then_get_latest_top_10 [OF 1 example_batch_valid 3 4 5 6, of 2000]
  show ?thesis by force
qed

lemma get_latest_top_10_rows:
  assumes "r \<in> set (get_latest_top_10 db)"
  shows "latest_timestamp db = Some (r_timestamp r)"
proof (cases "latest_timestamp db")
  case None
  with assms show ?thesis by (simp add: get_latest_top_10_def)
next
  case (Some t)
  with assms obtain dc where
    dc: "dc \<in> set (take 10 (sort_key (\<lambda>dc. market_cap_rank (fst dc))
           (join_cryptocurrency (cryptocurrencies db)
             (filter (\<lambda>d. timestamp d = t) (crypto_data db)))))"
    and r: "r = to_row dc"
    by (auto simp: get_latest_top_10_def)
  from dc have "dc \<in> set (join_cryptocurrency (cryptocurrencies db)
             (filter (\<lambda>d. timestamp d = t) (crypto_data db)))"
    by (metis in_set_takeD set_sort)
  then have "timestamp (fst dc) = t"
    by (auto simp: join_cryptocurrency_def)
  with r Some show ?thesis
    by (cases dc) (simp add: to_row_def)
qed

lemma store_True_rows:
  assumes "store_crypto_data db now f qs = (db', True)"
  shows "\<exists>rows. crypto_data db' = crypto_data db @ rows \<and> length rows = length qs \<and>
           (\<forall>r \<in> set rows. timestamp r = now)"
proof -
  from store_True_shape [OF assms] obtain rows where
    cd: "crypto_data db' = crypto_data db @ rows"
    and per: "list_all2 (persisted now) qs rows"
    by blast
  from per have "length rows = length qs" by (simp add: list_all2_lengthD)
  moreover from per have "\<forall>r \<in> set rows. timestamp r = now"
    by (auto simp: list_all2_conv_all_nth in_set_conv_nth persisted_def)
  ultimately show ?thesis using cd by blast
qed

section \<open>Timestamp groups\<close>

lemma get_latest_top_10_of_rows:
  assumes "crypto_data db = old @ rows" and "rows \<noteq> []"
    and "\<forall>d \<in> set old. timestamp d < now" and "\<forall>r \<in> set rows. timestamp r = now"
    and "primary_key_ok db"
    and "\<forall>r \<in> set rows. crypto_id r \<in> cc_id ` set (cryptocurrencies db)"
  shows "get_latest_top_10 db \<noteq> [] \<and>
         length (get_latest_top_10 db) = min 10 (length rows) \<and>
         (\<exists>joined. map fst joined = rows \<and>
            get_latest_top_10 db =
              map to_row (take 10 (sort_key (\<lambda>dc. market_cap_rank (fst dc)) joined)))"
proof -
  from get_latest_top_10_newest [OF assms] obtain joined where
    res: "get_latest_top_10 db =
           map to_row (take 10 (sort_key (\<lambda>dc. market_cap_rank (fst dc)) joined))"
    and j: "map fst joined = rows"
    by blast
  from j have lj: "length joined = length rows" by (metis length_map)
  with res have len: "length (get_latest_top_10 db) = min 10 (length rows)"
    by (simp add: min.commute)
  from assms(2) have "0 < min 10 (length rows)" by simp
  with len have "0 < length (get_latest_top_10 db)" by simp
  then have "get_latest_top_10 db \<noteq> []" by simp
  with len res j show ?thesis by blast
qed

text \<open>
  C3. Every successful call of \<open>store_crypto_data\<close> appends one row per quote, each
  the persisted form of its quote and all stamped with the single reading taken at the
  start of the call. Two successive runs, the second at a later reading, therefore leave
  two disjoint groups. After the second run of a non-empty batch (over a table whose
  earlier rows are not newer than the first reading and whose primary key is unique)
  \<open>get_latest_top_10\<close> is not empty: it returns the rows of the second group,
  joined with their currencies, the first ten in order of rank, and none of the first
  group. Whatever it returns carries one timestamp only, and no stored row is newer.
\<close>

theorem store_crypto_data_timestamp_groups:
  assumes "store_crypto_data db t1 f1 qs1 = (db1, True)"
    and "store_crypto_data db1 t2 f2 qs2 = (db2, True)"
    and "t1 < t2"
  shows "(\<exists>rows1 rows2.
            crypto_data db1 = crypto_data db @ rows1 \<and>
            crypto_data db2 = crypto_data db @ rows1 @ rows2 \<and>
            length rows1 = length qs1 \<and> length rows2 = length qs2 \<and>
            list_all2 (persisted t1) qs1 rows1 \<and>
            list_all2 (persisted t2) qs2 rows2 \<and>
            (\<forall>r \<in> set rows1. timestamp r = t1) \<and>
            (\<forall>r \<in> set rows2. timestamp r = t2) \<and>
            set rows1 \<inter> set rows2 = {} \<and>
            ((\<forall>d \<in> set (crypto_data db). timestamp d \<le> t1) \<longrightarrow>
               primary_key_ok db \<longrightarrow> qs2 \<noteq> [] \<longrightarrow>
               get_latest_top_10 db2 \<noteq> [] \<and>
               length (get_latest_top_10 db2) = min 10 (length qs2) \<and>
               (\<exists>joined. map fst joined = rows2 \<and>
                  get_latest_top_10 db2 =
                    map to_row
                      (take 10 (sort_key (\<lambda>dc. market_cap_rank (fst dc)) joined))))) \<and>
         (\<forall>r \<in> set (get_latest_top_10 db2). \<forall>r' \<in> set (get_latest_top_10 db2).
            r_timestamp r = r_timestamp r') \<and>
         (\<forall>r \<in> set (get_latest_top_10 db2). \<forall>d \<in> set (crypto_data db2).
            timestamp d \<le> r_timestamp r) \<and>
         ((\<forall>d \<in> set (crypto_data db). timestamp d \<le> t1) \<longrightarrow> qs2 \<noteq> [] \<longrightarrow>
            (\<forall>r \<in> set (get_latest_top_10 db2). r_timestamp r = t2))"
proof (intro conjI)
  from store_True_shape [OF assms(1)] obtain rows1 where
    cd1: "crypto_data db1 = crypto_data db @ rows1"
    and per1: "list_all2 (persisted t1) qs1 rows1"
    and pk1: "primary_key_ok db \<longrightarrow> primary_key_ok db1"
    by blast
  from store_True_shape [OF assms(2)] obtain rows2 where
    cd2: "crypto_data db2 = crypto_data db1 @ rows2"
    and per2: "list_all2 (persisted t2) qs2 rows2"
    and fk2: "\<forall>r \<in> set rows2. crypto_id r \<in> cc_id ` set (cryptocurrencies db2)"
    and pk2: "primary_key_ok db1 \<longrightarrow> primary_key_ok db2"
    by blast
  from per1 have len1: "length rows1 = length qs1" by (simp add: list_all2_lengthD)
  from per2 have len2: "length rows2 = length qs2" by (simp add: list_all2_lengthD)
  from per1 have ts1: "\<forall>r \<in> set rows1. timestamp r = t1"
    by (auto simp: list_all2_conv_all_nth in_set_conv_nth persisted_def)
  from per2 have ts2: "\<forall>r \<in> set rows2. timestamp r = t2"
    by (auto simp: list_all2_conv_all_nth in_set_conv_nth persisted_def)
  have disj: "set rows1 \<inter> set rows2 = {}"
  proof (rule ccontr)
    assume "set rows1 \<inter> set rows2 \<noteq> {}"
    then obtain x where "x \<in> set rows1" "x \<in> set rows2" by blast
    with ts1 ts2 have "t1 = t2" by metis
    with assms(3) show False by simp
  qed
  have older: "\<forall>d \<in> set (crypto_data db). timestamp d \<le> t1 \<Longrightarrow>
      \<forall>d \<in> set (crypto_data db1). timestamp d < t2"
  proof
    fix d assume old: "\<forall>d \<in> set (crypto_data db). timestamp d \<le> t1"
      and "d \<in> set (crypto_data db1)"
    then have "d \<in> set (crypto_data db) \<or> d \<in> set rows1" by (simp add: cd1)
    with old ts1 have "timestamp d \<le> t1" by auto
    with assms(3) show "timestamp d < t2" by simp
  qed
  have read: "(\<forall>d \<in> set (crypto_data db). timestamp d \<le> t1) \<longrightarrow>
               primary_key_ok db \<longrightarrow> qs2 \<noteq> [] \<longrightarrow>
               get_latest_top_10 db2 \<noteq> [] \<and>
               length (get_latest_top_10 db2) = min 10 (length qs2) \<and>
               (\<exists>joined. map fst joined = rows2 \<and>
                  get_latest_top_10 db2 =
                    map to_row
                      (take 10 (sort_key (\<lambda>dc. market_cap_rank (fst dc)) joined)))"
  proof (intro impI)
    assume old: "\<forall>d \<in> set (crypto_data db). timestamp d \<le> t1"
      and pk: "primary_key_ok db" and ne: "qs2 \<noteq> []"
    from ne len2 have ne2: "rows2 \<noteq> []" by auto
    from pk pk1 pk2 have pkdb2: "primary_key_ok db2" by simp
    from get_latest_top_10_of_rows [OF cd2 ne2 older [OF old] ts2 pkdb2 fk2] len2
    show "get_latest_top_10 db2 \<noteq> [] \<and>
               length (get_latest_top_10 db2) = min 10 (length qs2) \<and>
               (\<exists>joined. map fst joined = rows2 \<and>
                  get_latest_top_10 db2 =
                    map to_row
                      (take 10 (sort_key (\<lambda>dc. market_cap_rank (fst dc)) joined)))"
      by simp
  qed
  have cd2': "crypto_data db2 = crypto_data db @ rows1 @ rows2"
    using cd1 cd2 by simp
  from cd1 cd2' len1 len2 per1 per2 ts1 ts2 disj read
  show "\<exists>rows1 rows2.
            crypto_data db1 = crypto_data db @ rows1 \<and>
            crypto_data db2 = crypto_data db @ rows1 @ rows2 \<and>
            length rows1 = length qs1 \<and> length rows2 = length qs2 \<and>
            list_all2 (persisted t1) qs1 rows1 \<and>
            list_all2 (persisted t2) qs2 rows2 \<and>
            (\<forall>r \<in> set rows1. timestamp r = t1) \<and>
            (\<forall>r \<in> set rows2. timestamp r = t2) \<and>
            set rows1 \<inter> set rows2 = {} \<and>
            ((\<forall>d \<in> set (crypto_data db). timestamp d \<le> t1) \<longrightarrow>
               primary_key_ok db \<longrightarrow> qs2 \<noteq> [] \<longrightarrow>
               get_latest_top_10 db2 \<noteq> [] \<and>
               length (get_latest_top_10 db2) = min 10 (length qs2) \<and>
               (\<exists>joined. map fst joined = rows2 \<and>
                  get_latest_top_10 db2 =
                    map to_row
                      (take 10 (sort_key (\<lambda>dc. market_cap_rank (fst dc)) joined))))"
    by (intro exI [of _ rows1] exI [of _ rows2] conjI)
  show "\<forall>r \<in> set (get_latest_top_10 db2). \<forall>r' \<in> set (get_latest_top_10 db2).
            r_timestamp r = r_timestamp r'"
  proof (intro ballI)
    fix r r' assume "r \<in> set (get_latest_top_10 db2)" "r' \<in> set (get_latest_top_10 db2)"
    then have "latest_timestamp db2 = Some (r_timestamp r)"
      and "latest_timestamp db2 = Some (r_timestamp r')"
      using get_latest_top_10_rows by blast+
    then show "r_timestamp r = r_timestamp r'" by simp
  qed
  show "\<forall>r \<in> set (get_latest_top_10 db2). \<forall>d \<in> set (crypto_data db2).
            timestamp d \<le> r_timestamp r"
  proof (intro ballI)
    fix r d assume r: "r \<in> set (get_latest_top_10 db2)" and d: "d \<in> set (crypto_data db2)"
    from r have "latest_timestamp db2 = Some (r_timestamp r)"
      by (rule get_latest_top_10_rows)
    from latest_timestamp_Some(2) [OF this] d show "timestamp d \<le> r_timestamp r" by blast
  qed
  show "(\<forall>d \<in> set (crypto_data db). timestamp d \<le> t1) \<longrightarrow> qs2 \<noteq> [] \<longrightarrow>
            (\<forall>r \<in> set (get_latest_top_10 db2). r_timestamp r = t2)"
  proof (intro impI ballI)
    fix r
    assume old: "\<forall>d \<in> set (crypto_data db). timestamp d \<le> t1" and ne: "qs2 \<noteq> []"
      and r: "r \<in> set (get_latest_top_10 db2)"
    from ne len2 have ne2: "rows2 \<noteq> []" by auto
    from older [OF old] have "\<forall>d \<in> set (crypto_data db1). timestamp d \<le> t2" by auto
    from latest_timestamp_newest [OF cd2 ne2 this ts2]
    have "latest_timestamp db2 = Some t2" .
    with get_latest_top_10_rows [OF r] show "r_timestamp r = t2" by simp
  qed
qed

text \<open>Two runs over the example database, at the readings 2000 and 3000.\<close>

theorem store_crypto_data_timestamp_groups_witness:
  "\<exists>db1 db2.
     store_crypto_data example_db 2000 2000 example_batch = (db1, True) \<and>
     store_crypto_data db1 3000 3000 example_batch = (db2, True) \<and>
     (\<exists>rows1 rows2.
        crypto_data db2 = crypto_data example_db @ rows1 @ rows2 \<and>
        length rows1 = 10 \<and> length rows2 = 10 \<and>
        (\<forall>r \<in> set rows1. timestamp r = 2000) \<and>
        (\<forall>r \<in> set rows2. timestamp r = 3000) \<and>
        get_latest_top_10 db2 \<noteq> [] \<and>
        length (get_latest_top_10 db2) = 10 \<and>
        (\<exists>joined. map fst joined = rows2 \<and>
           get_latest_top_10 db2 =
             map to_row (take 10 (sort_key (\<lambda>dc. market_cap_rank (fst dc)) joined)))) \<and>
     (\<forall>r \<in> set (get_latest_top_10 db2). r_timestamp r = 3000)"
proof -
  have sq: "\<forall>q \<in> set example_batch. storable_quote q"
    using example_batch_valid by (simp add: valid_quote_def)
  have di: "distinct (map q_id example_batch)"
    by (simp add: example_batch_def example_quote_def)
  from store_ok [OF sq di] obtain db1 where
    1: "store_crypto_data example_db 2000 2000 example_batch = (db1, True)" by blast
  from store_ok [OF sq di] obtain db2 where
    2: "store_crypto_data db1 3000 3000 example_batch = (db2, True)" by blast
  have old: "\<forall>d \<in> set (crypto_data example_db). timestamp d \<le> 2000"
    by (simp add: example_db_def)
  have pk: "primary_key_ok example_db" by (simp add: primary_key_ok_def example_db_def)
  have ne: "example_batch \<noteq> []" by (simp add: example_batch_def)
  have len: "length example_batch = 10" by (simp add: example_batch_def)
  have lt: "(2000::int) < 3000" by simp
  from store_crypto_data_timestamp_groups [OF 1 2 lt] obtain rows1 rows2 where
    cd: "crypto_data db2 = crypto_data example_db @ rows1 @ rows2"
    and l1: "length rows1 = length example_batch"
    and l2: "length rows2 = length example_batch"
    and t1: "\<forall>r \<in> set rows1. timestamp r = 2000"
    and t2: "\<forall>r \<in> set rows2. timestamp r = 3000"
    and read: "(\<forall>d \<in> set (crypto_data example_db). timestamp d \<le> 2000) \<longrightarrow>
               primary_key_ok example_db \<longrightarrow> example_batch \<noteq> [] \<longrightarrow>
               get_latest_top_10 db2 \<noteq> [] \<and>
               length (get_latest_top_10 db2) = min 10 (length example_batch) \<and>
               (\<exists>joined. map fst joined = rows2 \<and>
                  get_latest_top_10 db2 =
                    map to_row
                      (take 10 (sort_key (\<lambda>dc. market_cap_rank (fst dc)) joined)))"
    and latest: "(\<forall>d \<in> set (crypto_data example_db). timestamp d \<le> 2000) \<longrightarrow>
        example_batch \<noteq> [] \<longrightarrow>
        (\<forall>r \<in> set (get_latest_top_10 db2). r_timestamp r = 3000)"
    by blast
  from read old pk ne len have r1: "get_latest_top_10 db2 \<noteq> []"
    and r2: "length (get_latest_top_10 db2) = 10"
    and r3: "\<exists>joined. map fst joined = rows2 \<and>
                  get_latest_top_10 db2 =
                    map to_row
                      (take 10 (sort_key (\<lambda>dc. market_cap_rank (fst dc)) joined))"
    by simp_all
  from latest old ne have r4: "\<forall>r \<in> set (get_latest_top_10 db2). r_timestamp r = 3000"
    by simp
  from l1 l2 len have l1': "length rows1 = 10" and l2': "length rows2 = 10" by simp_all
  have "\<exists>rows1 rows2.
        crypto_data db2 = crypto_data example_db @ rows1 @ rows2 \<and>
        length rows1 = 10 \<and> length rows2 = 10 \<and>
        (\<forall>r \<in> set rows1. timestamp r = 2000) \<and>
        (\<forall>r \<in> set rows2. timestamp r = 3000) \<and>
        get_latest_top_10 db2 \<noteq> [] \<and>
        length (get_latest_top_10 db2) = 10 \<and>
        (\<exists>joined. map fst joined = rows2 \<and>
           get_latest_top_10 db2 =
             map to_row (take 10 (sort_key (\<lambda>dc. market_cap_rank (fst dc)) joined)))"
    using cd l1' l2' t1 t2 r1 r2 r3
    by (intro exI [of _ rows1] exI [of _ rows2] conjI)
  with 1 2 r4 show ?thesis
    by (intro exI [of _ db1] exI [of _ db2] conjI)
qed

section \<open>The run log\<close>

lemma log_dashboard_update_eq:
  "log_dashboard_update db f st msg sent top_10 =
     (if 20 < length st then (db, False)
      else (db\<lparr>dashboard_updates := dashboard_updates db @
              [\<lparr>update_timestamp = f, status = st, error_message = msg,
                email_sent = sent, top_10_data = json_dumps_if top_10\<rparr>]\<rparr>, True))"
  by (simp add: log_dashboard_update_def begin_session_def session_add_def commit_def
      rollback_def String_col_def not_null_def Let_def)

text \<open>
  C9. A failure inside \<open>log_dashboard_update\<close> (a status longer than the 20
  characters of its column is one) makes it return \<open>False\<close>; and whenever it returns
  \<open>False\<close> no \<open>DashboardUpdate\<close> row is appended and the \<open>CryptoCurrency\<close>
  and \<open>CryptoData\<close> rows committed by the preceding successful
  \<open>store_crypto_data\<close> are unchanged.
\<close>

theorem log_dashboard_update_failure_frame:
  assumes "store_crypto_data db now flushed_at crypto_list = (db1, True)"
    and "log_dashboard_update db1 logged_at st msg sent top_10 = (db2, ok)"
  shows "(20 < length st \<longrightarrow> \<not> ok) \<and>
         (\<not> ok \<longrightarrow>
            dashboard_updates db2 = dashboard_updates db1 \<and>
            cryptocurrencies db2 = cryptocurrencies db1 \<and>
            crypto_data db2 = crypto_data db1 \<and>
            get_latest_top_10 db2 = get_latest_top_10 db1)"
proof (cases "20 < length st")
  case True
  with assms(2) show ?thesis by (simp add: log_dashboard_update_eq)
next
  case False
  with assms(2) show ?thesis by (auto simp: log_dashboard_update_eq)
qed

text \<open>A status of 21 characters, logged after the example batch was stored.\<close>

theorem log_dashboard_update_failure_frame_witness:
  "\<exists>db1. store_crypto_data example_db 2000 2000 example_batch = (db1, True) \<and>
     log_dashboard_update db1 2002 ''success-with-warnings'' None True None = (db1, False)"
proof -
  have sq: "\<forall>q \<in> set example_batch. storable_quote q"
    using example_batch_valid by (simp add: valid_quote_def)
  have di: "distinct (map q_id example_batch)"
    by (simp add: example_batch_def example_quote_def)
  from store_ok [OF sq di] obtain db1 where
    1: "store_crypto_data example_db 2000 2000 example_batch = (db1, True)" by blast
  obtain db2 ok where
    2: "log_dashboard_update db1 2002 ''success-with-warnings'' None True None = (db2, ok)"
    by (cases "log_dashboard_update db1 2002 ''success-with-warnings'' None True None")
  have long: "20 < length ''success-with-warnings''" by simp
  from log_dashboard_update_failure_frame [OF 1 2] long
  have nok: "\<not> ok" and "dashboard_updates db2 = dashboard_updates db1"
    "cryptocurrencies db2 = cryptocurrencies db1" "crypto_data db2 = crypto_data db1"
    by blast+
  then have "db2 = db1" and "ok = False" by simp_all
  with 2 have "log_dashboard_update db1 2002 ''success-with-warnings'' None True None =
      (db1, False)" by simp
  with 1 show ?thesis by (intro exI [of _ db1]) simp
qed

section \<open>Retention\<close>

lemma cutoff_date_cases:
  assumes "datetime_min \<le> now" and "now \<le> datetime_max"
    and "now - days_to_keep * 86400000000 \<le> datetime_max"
  shows "cutoff_date now days_to_keep = Inr (now - days_to_keep * 86400000000) \<or>
         (\<exists>e. cutoff_date now days_to_keep = Inl e) \<and>
           now - days_to_keep * 86400000000 < datetime_min"
proof (cases "days_to_keep < - 999999999 \<or> 999999999 < days_to_keep")
  case True
  then show ?thesis
  proof
    assume "days_to_keep < - 999999999"
    with assms(1,3) show ?thesis by (simp add: datetime_min_def datetime_max_def)
  next
    assume "999999999 < days_to_keep"
    with assms(2) have "now - days_to_keep * 86400000000 < datetime_min"
      by (simp add: datetime_min_def datetime_max_def)
    with \<open>999999999 < days_to_keep\<close> show ?thesis
      by (simp add: cutoff_date_def timedelta_days_def)
  qed
next
  case False
  then show ?thesis
    using assms(3)
    by (auto simp: cutoff_date_def timedelta_days_def datetime_sub_def Let_def)
qed

text \<open>
  C8. With \<open>now\<close> a datetime and every stored timestamp a datetime, for every
  retention value whose cutoff (\<open>days_to_keep\<close> days before \<open>now\<close>) does not lie
  beyond the largest datetime, which holds for every retention value that is not
  negative, \<open>cleanup_old_data\<close> leaves exactly the \<open>CryptoData\<close> and
  \<open>DashboardUpdate\<close> rows whose timestamp is not strictly earlier than the cutoff,
  and leaves \<open>cryptocurrencies\<close> alone.
\<close>

theorem cleanup_old_data_exact:
  assumes "datetime_min \<le> now" and "now \<le> datetime_max"
    and "\<forall>d \<in> set (crypto_data db). datetime_min \<le> timestamp d"
    and "\<forall>u \<in> set (dashboard_updates db). datetime_min \<le> update_timestamp u"
    and "0 \<le> days_to_keep \<or> now - days_to_keep * 86400000000 \<le> datetime_max"
  shows "crypto_data (fst (cleanup_old_data db now days_to_keep)) =
           filter (\<lambda>d. \<not> timestamp d < now - days_to_keep * 86400000000) (crypto_data db) \<and>
         dashboard_updates (fst (cleanup_old_data db now days_to_keep)) =
           filter (\<lambda>u. \<not> update_timestamp u < now - days_to_keep * 86400000000)
             (dashboard_updates db) \<and>
         cryptocurrencies (fst (cleanup_old_data db now days_to_keep)) = cryptocurrencies db"
proof -
  from assms(2,5) have le: "now - days_to_keep * 86400000000 \<le> datetime_max"
    by auto
  from cutoff_date_cases [OF assms(1,2) le] show ?thesis
  proof
    assume "cutoff_date now days_to_keep = Inr (now - days_to_keep * 86400000000)"
    then show ?thesis by (simp add: cleanup_old_data_def)
  next
    assume a: "(\<exists>e. cutoff_date now days_to_keep = Inl e) \<and>
           now - days_to_keep * 86400000000 < datetime_min"
    then obtain e where e: "cutoff_date now days_to_keep = Inl e" by blast
    from a assms(3) have "\<forall>d \<in> set (crypto_data db).
        \<not> timestamp d < now - days_to_keep * 86400000000" by fastforce
    then have 1: "filter (\<lambda>d. \<not> timestamp d < now - days_to_keep * 86400000000)
        (crypto_data db) = crypto_data db" by (simp add: filter_id_conv)
    from a assms(4) have "\<forall>u \<in> set (dashboard_updates db).
        \<not> update_timestamp u < now - days_to_keep * 86400000000" by fastforce
    then have 2: "filter (\<lambda>u. \<not> update_timestamp u < now - days_to_keep * 86400000000)
        (dashboard_updates db) = dashboard_updates db" by (simp add: filter_id_conv)
    from e 1 2 show ?thesis by (simp add: cleanup_old_data_def)
  qed
qed

text \<open>
  Snapshots aged 5, 65 and 35 days: a retention of 30 days keeps the one aged 5 days.
\<close>

theorem cleanup_old_data_exact_witness:
  "crypto_data (fst (cleanup_old_data aged_db aged_now 30)) = [aged_row 8208000000000] \<and>
   dashboard_updates (fst (cleanup_old_data aged_db aged_now 30)) =
     [aged_update 8208000000000] \<and>
   cryptocurrencies (fst (cleanup_old_data aged_db aged_now 30)) = cryptocurrencies aged_db"
proof -
  have 1: "datetime_min \<le> aged_now" and 2: "aged_now \<le> datetime_max"
    by (simp_all add: aged_now_def datetime_min_def datetime_max_def)
  have 3: "\<forall>d \<in> set (crypto_data aged_db). datetime_min \<le> timestamp d"
    by (simp add: aged_db_def aged_row_def datetime_min_def)
  have 4: "\<forall>u \<in> set (dashboard_updates aged_db). datetime_min \<le> update_timestamp u"
    by (simp add: aged_db_def aged_update_def datetime_min_def)
  have 5: "(0::int) \<le> 30 \<or> aged_now - 30 * 86400000000 \<le> datetime_max" by simp
  from cleanup_old_data_exact [OF 1 2 3 4 5]
  show ?thesis by (simp add: aged_db_def aged_row_def aged_update_def aged_now_def)
qed

section \<open>Normalising the API response\<close>

lemma upper_char_x: "upper_char CHR ''x'' = CHR ''X''"
  by code_simp

lemma transform_coin_ok:
  assumes "coin_symbol c \<noteq> None"
  shows "\<exists>q. transform_coin c = Inr q \<and> normalized c q"
  using assms
  by (cases "coin_symbol c")
     (auto simp: transform_coin_def upper_def normalized_def or_zero_def split: option.splits)

lemma transform_ok:
  assumes "\<forall>c \<in> set data. coin_symbol c \<noteq> None"
  shows "\<exists>qs. transform data acc = Inr (acc @ qs) \<and> list_all2 normalized data qs"
  using assms
proof (induction data arbitrary: acc)
  case Nil
  then show ?case by simp
next
  case (Cons c data)
  then have "coin_symbol c \<noteq> None" by simp
  from transform_coin_ok [OF this] obtain q where
    q: "transform_coin c = Inr q" "normalized c q" by blast
  from Cons.prems have "\<forall>c \<in> set data. coin_symbol c \<noteq> None" by simp
  from Cons.IH [OF this, of "acc @ [q]"] obtain qs where
    qs: "transform data (acc @ [q]) = Inr ((acc @ [q]) @ qs)" "list_all2 normalized data qs"
    by blast
  have "transform (c # data) acc = Inr (acc @ (q # qs))"
    using q(1) qs(1) by simp
  moreover have "list_all2 normalized (c # data) (q # qs)"
    using q(2) qs(2) by simp
  ultimately show ?case by blast
qed

lemma fetch_Payload_Nil: "fetch_top_10_cryptocurrencies (Payload []) = Some []"
  by (simp add: fetch_top_10_cryptocurrencies_def)

text \<open>
  C6, as the code has it. On a response whose elements all carry a symbol,
  \<open>fetch_top_10_cryptocurrencies\<close> returns one normalised quote per element of the
  response, in the order of the response: id, name, upper-cased symbol, price, market
  capitalisation, volume, 24h change (0 when \<open>null\<close>) and rank. The list has ten
  quotes when the response has ten elements, and only then.
\<close>

theorem fetch_top_10_cryptocurrencies_normalized:
  assumes "\<forall>c \<in> set data. coin_symbol c \<noteq> None"
  shows "\<exists>crypto_list.
           fetch_top_10_cryptocurrencies (Payload data) = Some crypto_list \<and>
           length crypto_list = length data \<and>
           (\<forall>k < length data. normalized (data ! k) (crypto_list ! k)) \<and>
           (length crypto_list = 10 \<longleftrightarrow> length data = 10)"
proof -
  from transform_ok [OF assms, of "[]"] obtain qs where
    qs: "transform data [] = Inr qs" "list_all2 normalized data qs"
    by auto
  from qs(2) have len: "length qs = length data"
    by (simp add: list_all2_lengthD)
  from qs(2) have "\<forall>k < length data. normalized (data ! k) (qs ! k)"
    by (simp add: list_all2_conv_all_nth)
  with qs(1) len show ?thesis
    by (simp add: fetch_top_10_cryptocurrencies_def)
qed

text \<open>A response of two elements, the second without a 24h change.\<close>

theorem fetch_top_10_cryptocurrencies_normalized_witness:
  "\<exists>crypto_list.
     fetch_top_10_cryptocurrencies (Payload short_payload) = Some crypto_list \<and>
     length crypto_list = 2 \<and>
     q_price_change_24h_percent (crypto_list ! 1) = Some 0 \<and>
     q_symbol (crypto_list ! 0) = Some ''X''"
proof -
  have h: "\<forall>c \<in> set short_payload. coin_symbol c \<noteq> None"
    by (simp add: short_payload_def example_coin_def)
  from fetch_top_10_cryptocurrencies_normalized [OF h] obtain crypto_list where
    f: "fetch_top_10_cryptocurrencies (Payload short_payload) = Some crypto_list"
    and l: "length crypto_list = length short_payload"
    and n: "\<forall>k < length short_payload. normalized (short_payload ! k) (crypto_list ! k)"
    by blast
  have len: "length short_payload = 2" by (simp add: short_payload_def)
  from n len have "normalized (short_payload ! 1) (crypto_list ! 1)"
    and "normalized (short_payload ! 0) (crypto_list ! 0)" by simp_all
  then have "q_price_change_24h_percent (crypto_list ! 1) = Some 0"
    and "q_symbol (crypto_list ! 0) = Some ''X''"
    by (simp_all add: normalized_def short_payload_def example_coin_def upper_char_x)
  with f l len show ?thesis by simp
qed

text \<open>
  The claim as stated fails: a successful response of two elements yields two quotes,
  not ten.
\<close>

theorem fetch_top_10_cryptocurrencies_counterexample:
  "map_option length (fetch_top_10_cryptocurrencies (Payload short_payload)) = Some 2 \<and>
   map_option length (fetch_top_10_cryptocurrencies (Payload short_payload)) \<noteq> Some 10"
  by (simp add: fetch_top_10_cryptocurrencies_def short_payload_def example_coin_def
      transform_coin_def upper_def)

section \<open>The handler\<close>

lemma failed_run_eq:
  "failed_run env db msg =
     (db\<lparr>dashboard_updates := dashboard_updates db @
          [\<lparr>update_timestamp = log_flushed_at env, status = ''failed'',
            error_message = Some msg, email_sent = False, top_10_data = None\<rparr>]\<rparr>,
      [Error_notification msg], error_response msg)"
  by (simp add: failed_run_def log_dashboard_update_eq json_dumps_if_def)

lemma lambda_handler_falsy:
  assumes "fetch_top_10_cryptocurrencies (api env) = None \<or>
           fetch_top_10_cryptocurrencies (api env) = Some []"
  shows "lambda_handler env db = failed_run env db fetch_error_msg"
  using assms by (auto simp: lambda_handler_def)

lemma lambda_handler_success:
  assumes "fetch_top_10_cryptocurrencies (api env) = Some crypto_list"
    and "crypto_list \<noteq> []"
    and "store_crypto_data db (store_now env) (store_flushed_at env) crypto_list = (db1, True)"
  shows "lambda_handler env db =
     (db1\<lparr>dashboard_updates := dashboard_updates db1 @
          [\<lparr>update_timestamp = log_flushed_at env, status = ''success'',
            error_message = None,
            email_sent = send_daily_dashboard_email env crypto_list,
            top_10_data = None\<rparr>]\<rparr>,
      [Daily_dashboard_email crypto_list],
      \<lparr>statusCode = 200, body_status = ''success'',
       body_message = ''Dashboard updated successfully'',
       body_timestamp = Some (response_now env),
       body_cryptocurrencies_updated = Some (length crypto_list),
       body_email_sent = Some (send_daily_dashboard_email env crypto_list)\<rparr>)"
proof -
  from assms(2) obtain q qs where c: "crypto_list = q # qs" by (cases crypto_list) auto
  with assms(1,3) show ?thesis
    by (simp add: lambda_handler_def log_dashboard_update_eq json_dumps_if_def Let_def)
qed

lemma get_latest_top_10_frame:
  assumes "cryptocurrencies db' = cryptocurrencies db" and "crypto_data db' = crypto_data db"
  shows "get_latest_top_10 db' = get_latest_top_10 db"
  unfolding get_latest_top_10_def latest_timestamp_def assms ..

lemma fetch_example_coins:
  "fetch_top_10_cryptocurrencies (Payload example_coins) = Some example_batch"
  by (simp add: fetch_top_10_cryptocurrencies_def example_coins_def example_batch_def
      example_coin_def example_quote_def transform_coin_def upper_def or_zero_def
      upper_char_x)

text \<open>
  C4. When the fetch step fails, that is when \<open>fetch_top_10_cryptocurrencies\<close>
  returns \<open>None\<close> or the empty list, \<open>lambda_handler\<close> appends exactly one
  \<open>DashboardUpdate\<close> row, with status \<open>failed\<close>, an error message and
  \<open>email_sent = False\<close>, adds no \<open>CryptoData\<close> row, sends the error
  notification and answers with status code 500.
\<close>

theorem lambda_handler_fetch_failure:
  assumes "fetch_top_10_cryptocurrencies (api env) = None \<or>
           fetch_top_10_cryptocurrencies (api env) = Some []"
  shows "\<exists>db' u resp.
           lambda_handler env db = (db', [Error_notification fetch_error_msg], resp) \<and>
           dashboard_updates db' = dashboard_updates db @ [u] \<and>
           status u = ''failed'' \<and> error_message u = Some fetch_error_msg \<and>
           \<not> email_sent u \<and>
           crypto_data db' = crypto_data db \<and>
           cryptocurrencies db' = cryptocurrencies db \<and>
           statusCode resp = 500 \<and> body_status resp = ''error''"
  by (simp add: lambda_handler_falsy [OF assms] failed_run_eq error_response_def)

text \<open>The request raises.\<close>

theorem lambda_handler_fetch_failure_witness:
  "\<exists>db' u resp.
     lambda_handler (example_env\<lparr>api := Request_raises\<rparr>) example_db =
       (db', [Error_notification fetch_error_msg], resp) \<and>
     dashboard_updates db' = [u] \<and> status u = ''failed'' \<and>
     error_message u = Some fetch_error_msg \<and> \<not> email_sent u \<and>
     crypto_data db' = crypto_data example_db \<and> statusCode resp = 500"
proof -
  have "fetch_top_10_cryptocurrencies (api (example_env\<lparr>api := Request_raises\<rparr>)) = None \<or>
      fetch_top_10_cryptocurrencies (api (example_env\<lparr>api := Request_raises\<rparr>)) = Some []"
    by (simp add: fetch_top_10_cryptocurrencies_def)
  from lambda_handler_fetch_failure [OF this, of example_db]
  have "\<exists>db' u resp.
     lambda_handler (example_env\<lparr>api := Request_raises\<rparr>) example_db =
       (db', [Error_notification fetch_error_msg], resp) \<and>
     dashboard_updates db' = dashboard_updates example_db @ [u] \<and> status u = ''failed'' \<and>
     error_message u = Some fetch_error_msg \<and> \<not> email_sent u \<and>
     crypto_data db' = crypto_data example_db \<and> statusCode resp = 500"
    by blast
  moreover have "dashboard_updates example_db = []" by (simp add: example_db_def)
  ultimately show ?thesis by simp
qed

text \<open>
  C10. A successful response with an empty array makes the fetch step return the empty
  list, and \<open>lambda_handler\<close> then does exactly what it does when the fetch step
  returns \<open>None\<close>: it logs one \<open>DashboardUpdate\<close> with status \<open>failed\<close>,
  sends the error notification, stores no \<open>CryptoData\<close> row and answers with
  status code 500.
\<close>

theorem lambda_handler_empty_list:
  "fetch_top_10_cryptocurrencies (Payload []) = Some [] \<and>
   fetch_top_10_cryptocurrencies Request_raises = None \<and>
   lambda_handler (env\<lparr>api := Payload []\<rparr>) db =
     lambda_handler (env\<lparr>api := Request_raises\<rparr>) db \<and>
   lambda_handler (env\<lparr>api := Payload []\<rparr>) db =
     (db\<lparr>dashboard_updates := dashboard_updates db @
          [\<lparr>update_timestamp = log_flushed_at env, status = ''failed'',
            error_message = Some fetch_error_msg, email_sent = False,
            top_10_data = None\<rparr>]\<rparr>,
      [Error_notification fetch_error_msg],
      error_response fetch_error_msg) \<and>
   statusCode (error_response fetch_error_msg) = 500"
  by (simp add: fetch_top_10_cryptocurrencies_def lambda_handler_def failed_run_eq
      error_response_def)

text \<open>
  C5. When the store step succeeds and \<open>send_daily_dashboard_email\<close> returns
  \<open>False\<close>, the run still answers with status code 200 and status \<open>success\<close>;
  exactly one \<open>DashboardUpdate\<close> row is appended, with status \<open>success\<close> and
  \<open>email_sent = False\<close>; the rows the store committed are untouched. The table
  holds the earlier rows followed by the persisted form of the fetched quotes, and with
  a reading later than every timestamp stored before (and a unique primary key)
  \<open>get_latest_top_10\<close> is not empty and returns those new rows, joined with their
  currencies, the first ten in order of rank.
\<close>

theorem lambda_handler_notifier_failure:
  assumes "fetch_top_10_cryptocurrencies (api env) = Some crypto_list"
    and "crypto_list \<noteq> []"
    and "store_crypto_data db (store_now env) (store_flushed_at env) crypto_list = (db1, True)"
    and "\<not> send_daily_dashboard_email env crypto_list"
  shows "\<exists>db2 u resp.
           lambda_handler env db = (db2, [Daily_dashboard_email crypto_list], resp) \<and>
           statusCode resp = 200 \<and> body_status resp = ''success'' \<and>
           body_email_sent resp = Some False \<and>
           dashboard_updates db2 = dashboard_updates db @ [u] \<and>
           status u = ''success'' \<and> error_message u = None \<and> \<not> email_sent u \<and>
           cryptocurrencies db2 = cryptocurrencies db1 \<and>
           crypto_data db2 = crypto_data db1 \<and>
           get_latest_top_10 db2 = get_latest_top_10 db1 \<and>
           ((\<forall>d \<in> set (crypto_data db). timestamp d < store_now env) \<longrightarrow>
              (\<forall>r \<in> set (get_latest_top_10 db2). r_timestamp r = store_now env)) \<and>
           (\<exists>rows.
              crypto_data db2 = crypto_data db @ rows \<and>
              list_all2 (persisted (store_now env)) crypto_list rows \<and>
              ((\<forall>d \<in> set (crypto_data db). timestamp d < store_now env) \<longrightarrow>
                 primary_key_ok db \<longrightarrow>
                 get_latest_top_10 db2 \<noteq> [] \<and>
                 length (get_latest_top_10 db2) = min 10 (length crypto_list) \<and>
                 (\<exists>joined. map fst joined = rows \<and>
                    get_latest_top_10 db2 =
                      map to_row
                        (take 10 (sort_key (\<lambda>dc. market_cap_rank (fst dc)) joined)))))"
proof -
  let ?u = "\<lparr>update_timestamp = log_flushed_at env, status = ''success'',
            error_message = None, email_sent = False, top_10_data = None\<rparr>"
  let ?db2 = "db1\<lparr>dashboard_updates := dashboard_updates db1 @ [?u]\<rparr>"
  let ?resp = "\<lparr>statusCode = 200, body_status = ''success'',
       body_message = ''Dashboard updated successfully'',
       body_timestamp = Some (response_now env),
       body_cryptocurrencies_updated = Some (length crypto_list),
       body_email_sent = Some False\<rparr>"
  from lambda_handler_success [OF assms(1,2,3)] assms(4)
  have run: "lambda_handler env db = (?db2, [Daily_dashboard_email crypto_list], ?resp)"
    by simp
  from store_True_shape [OF assms(3)] obtain rows where
    cd: "crypto_data db1 = crypto_data db @ rows"
    and per: "list_all2 (persisted (store_now env)) crypto_list rows"
    and du: "dashboard_updates db1 = dashboard_updates db"
    and fk: "\<forall>r \<in> set rows. crypto_id r \<in> cc_id ` set (cryptocurrencies db1)"
    and pk1: "primary_key_ok db \<longrightarrow> primary_key_ok db1"
    by blast
  have gl: "get_latest_top_10 ?db2 = get_latest_top_10 db1"
    by (rule get_latest_top_10_frame) simp_all
  from per assms(2) have ne: "rows \<noteq> []" by (auto simp: list_all2_Cons1 neq_Nil_conv)
  from per have len: "length rows = length crypto_list" by (simp add: list_all2_lengthD)
  from per have ts: "\<forall>x \<in> set rows. timestamp x = store_now env"
    by (auto simp: list_all2_conv_all_nth in_set_conv_nth persisted_def)
  have latest: "(\<forall>d \<in> set (crypto_data db). timestamp d < store_now env) \<longrightarrow>
              (\<forall>r \<in> set (get_latest_top_10 ?db2). r_timestamp r = store_now env)"
  proof (intro impI ballI)
    fix r
    assume old: "\<forall>d \<in> set (crypto_data db). timestamp d < store_now env"
      and r: "r \<in> set (get_latest_top_10 ?db2)"
    from old have "\<forall>d \<in> set (crypto_data db). timestamp d \<le> store_now env" by auto
    from latest_timestamp_newest [OF cd ne this ts]
    have "latest_timestamp db1 = Some (store_now env)" .
    moreover from r gl have "r \<in> set (get_latest_top_10 db1)" by simp
    then have "latest_timestamp db1 = Some (r_timestamp r)"
      by (rule get_latest_top_10_rows)
    ultimately show "r_timestamp r = store_now env" by simp
  qed
  have read: "(\<forall>d \<in> set (crypto_data db). timestamp d < store_now env) \<longrightarrow>
                 primary_key_ok db \<longrightarrow>
                 get_latest_top_10 ?db2 \<noteq> [] \<and>
                 length (get_latest_top_10 ?db2) = min 10 (length crypto_list) \<and>
                 (\<exists>joined. map fst joined = rows \<and>
                    get_latest_top_10 ?db2 =
                      map to_row
                        (take 10 (sort_key (\<lambda>dc. market_cap_rank (fst dc)) joined)))"
  proof (intro impI)
    assume old: "\<forall>d \<in> set (crypto_data db). timestamp d < store_now env"
      and pk: "primary_key_ok db"
    from pk pk1 have "primary_key_ok db1" by simp
    from get_latest_top_10_of_rows [OF cd ne old ts this fk] len gl
    show "get_latest_top_10 ?db2 \<noteq> [] \<and>
                 length (get_latest_top_10 ?db2) = min 10 (length crypto_list) \<and>
                 (\<exists>joined. map fst joined = rows \<and>
                    get_latest_top_10 ?db2 =
                      map to_row
                        (take 10 (sort_key (\<lambda>dc. market_cap_rank (fst dc)) joined)))"
      by simp
  qed
  have cd2: "crypto_data ?db2 = crypto_data db @ rows" using cd by simp
  have rows: "\<exists>rows.
              crypto_data ?db2 = crypto_data db @ rows \<and>
              list_all2 (persisted (store_now env)) crypto_list rows \<and>
              ((\<forall>d \<in> set (crypto_data db). timestamp d < store_now env) \<longrightarrow>
                 primary_key_ok db \<longrightarrow>
                 get_latest_top_10 ?db2 \<noteq> [] \<and>
                 length (get_latest_top_10 ?db2) = min 10 (length crypto_list) \<and>
                 (\<exists>joined. map fst joined = rows \<and>
                    get_latest_top_10 ?db2 =
                      map to_row
                        (take 10 (sort_key (\<lambda>dc. market_cap_rank (fst dc)) joined))))"
    using cd2 per read by (intro exI [of _ rows] conjI)
  have "dashboard_updates ?db2 = dashboard_updates db @ [?u]" using du by simp
  with run gl latest rows show ?thesis
    by (intro exI [of _ ?db2] exI [of _ ?u] exI [of _ ?resp]) simp
qed

text \<open>The example run: the batch is stored, the daily email is not delivered.\<close>

theorem lambda_handler_notifier_failure_witness:
  "\<exists>db2 u resp.
     lambda_handler example_env example_db =
       (db2, [Daily_dashboard_email example_batch], resp) \<and>
     statusCode resp = 200 \<and> body_email_sent resp = Some False \<and>
     dashboard_updates db2 = [u] \<and> status u = ''success'' \<and> \<not> email_sent u \<and>
     (\<forall>r \<in> set (get_latest_top_10 db2). r_timestamp r = 2000) \<and>
     (\<exists>rows.
        crypto_data db2 = crypto_data example_db @ rows \<and>
        list_all2 (persisted 2000) example_batch rows \<and>
        get_latest_top_10 db2 \<noteq> [] \<and>
        length (get_latest_top_10 db2) = 10 \<and>
        (\<exists>joined. map fst joined = rows \<and>
           get_latest_top_10 db2 =
             map to_row (take 10 (sort_key (\<lambda>dc. market_cap_rank (fst dc)) joined))))"
proof -
  have f: "fetch_top_10_cryptocurrencies (api example_env) = Some example_batch"
    by (simp add: example_env_def fetch_example_coins)
  have ne: "example_batch \<noteq> []" by (simp add: example_batch_def)
  have len: "length example_batch = 10" by (simp add: example_batch_def)
  have sq: "\<forall>q \<in> set example_batch. storable_quote q"
    using example_batch_valid by (simp add: valid_quote_def)
  have di: "distinct (map q_id example_batch)"
    by (simp add: example_batch_def example_quote_def)
  from store_ok [OF sq di] obtain db1 where
    "store_crypto_data example_db 2000 2001 example_batch = (db1, True)" by blast
  then have st: "store_crypto_data example_db (store_now example_env)
      (store_flushed_at example_env) example_batch = (db1, True)"
    by (simp add: example_env_def)
  have nf: "\<not> send_daily_dashboard_email example_env example_batch"
    by (simp add: example_env_def)
  have old: "\<forall>d \<in> set (crypto_data example_db). timestamp d < store_now example_env"
    by (simp add: example_db_def example_env_def)
  have pk: "primary_key_ok example_db" by (simp add: primary_key_ok_def example_db_def)
  have now: "store_now example_env = 2000" by (simp add: example_env_def)
  have du: "dashboard_updates example_db = []" by (simp add: example_db_def)
  from lambda_handler_notifier_failure [OF f ne st nf] obtain db2 u resp rows where
    run: "lambda_handler example_env example_db =
       (db2, [Daily_dashboard_email example_batch], resp)"
    and a: "statusCode resp = 200" "body_email_sent resp = Some False"
      "dashboard_updates db2 = dashboard_updates example_db @ [u]"
      "status u = ''success''" "\<not> email_sent u"
    and latest: "(\<forall>d \<in> set (crypto_data example_db). timestamp d < store_now example_env) \<longrightarrow>
              (\<forall>r \<in> set (get_latest_top_10 db2). r_timestamp r = store_now example_env)"
    and cd: "crypto_data db2 = crypto_data example_db @ rows"
    and per: "list_all2 (persisted (store_now example_env)) example_batch rows"
    and read: "(\<forall>d \<in> set (crypto_data example_db). timestamp d < store_now example_env) \<longrightarrow>
                 primary_key_ok example_db \<longrightarrow>
                 get_latest_top_10 db2 \<noteq> [] \<and>
                 length (get_latest_top_10 db2) = min 10 (length example_batch) \<and>
                 (\<exists>joined. map fst joined = rows \<and>
                    get_latest_top_10 db2 =
                      map to_row
                        (take 10 (sort_key (\<lambda>dc. market_cap_rank (fst dc)) joined)))"
    by blast
  from latest old now have l: "\<forall>r \<in> set (get_latest_top_10 db2). r_timestamp r = 2000"
    by simp
  from read old pk len have r1: "get_latest_top_10 db2 \<noteq> []"
    and r2: "length (get_latest_top_10 db2) = 10"
    and r3: "\<exists>joined. map fst joined = rows \<and>
                    get_latest_top_10 db2 =
                      map to_row
                        (take 10 (sort_key (\<lambda>dc. market_cap_rank (fst dc)) joined))"
    by simp_all
  from per now have per': "list_all2 (persisted 2000) example_batch rows" by simp
  from a(3) du have du': "dashboard_updates db2 = [u]" by simp
  have "\<exists>rows.
        crypto_data db2 = crypto_data example_db @ rows \<and>
        list_all2 (persisted 2000) example_batch rows \<and>
        get_latest_top_10 db2 \<noteq> [] \<and>
        length (get_latest_top_10 db2) = 10 \<and>
        (\<exists>joined. map fst joined = rows \<and>
           get_latest_top_10 db2 =
             map to_row (take 10 (sort_key (\<lambda>dc. market_cap_rank (fst dc)) joined)))"
    using cd per' r1 r2 r3 by (intro exI [of _ rows] conjI)
  with run a(1,2,4,5) du' l show ?thesis
    by (intro exI [of _ db2] exI [of _ u] exI [of _ resp] conjI)
qed

text \<open>
  C7 fails on the code. On the successful example run the logged row has status
  \<open>success\<close>, no error message and the notifier's result, but its
  \<open>top_10_data\<close> is \<open>None\<close>, not the fetched quotes: the handler calls
  \<open>log_dashboard_update\<close> without the \<open>top_10_data\<close> argument.
\<close>

theorem lambda_handler_drops_snapshot:
  "fetch_top_10_cryptocurrencies (api example_env) = Some example_batch \<and>
   statusCode (snd (snd (lambda_handler example_env example_db))) = 200 \<and>
   map status (dashboard_updates (fst (lambda_handler example_env example_db))) =
     [''success''] \<and>
   map top_10_data (dashboard_updates (fst (lambda_handler example_env example_db))) =
     [None] \<and>
   map top_10_data (dashboard_updates (fst (lambda_handler example_env example_db))) \<noteq>
     [Some example_batch]"
proof -
  have f: "fetch_top_10_cryptocurrencies (api example_env) = Some example_batch"
    by (simp add: example_env_def fetch_example_coins)
  have ne: "example_batch \<noteq> []" by (simp add: example_batch_def)
  have sq: "\<forall>q \<in> set example_batch. storable_quote q"
    using example_batch_valid by (simp add: valid_quote_def)
  have di: "distinct (map q_id example_batch)"
    by (simp add: example_batch_def example_quote_def)
  from store_ok [OF sq di] obtain db1 where
    "store_crypto_data example_db 2000 2001 example_batch = (db1, True)" by blast
  then have st: "store_crypto_data example_db (store_now example_env)
      (store_flushed_at example_env) example_batch = (db1, True)"
    by (simp add: example_env_def)
  from store_True_shape [OF st] have du: "dashboard_updates db1 = []"
    by (auto simp: example_db_def)
  from lambda_handler_success [OF f ne st] du f show ?thesis
    by simp
qed

end
